theory Spec2Isabelle
  imports Main "HOL-Library.Sublist"
begin

section \<open>The deployment server of deploy-bun (src/server.ts)\<close>

text \<open>
  The server keeps two module-level variables (\<open>currentAppServer\<close>,
  \<open>currentDeploymentHash\<close>), a directory of unpacked uploads and one state file.
  Each function of \<open>server.ts\<close> is a function from the world before to a result and
  the world after; a thrown exception is the result \<open>Inl\<close>, and it keeps the
  mutations made before the throw, as in the source.
\<close>

subsection \<open>Paths\<close>

text \<open>
  A path is the list of its segments from the filesystem root, already normalised.
  \<open>join\<close> is \<open>path.join\<close> of an absolute normalised path with a string: the string is
  cut at every slash, empty segments and \<open>.\<close> are dropped and \<open>..\<close> removes the last
  segment (at the root it does nothing). Symbolic links are not modelled.

  \<open>path.join\<close> keeps a slash at the end of its result, and a path written with a slash at
  its end names a directory only. The list of segments does not show that slash;
  \<open>slash_after a b\<close> says whether \<open>path.join(a, b)\<close> ends in one, for a first part \<open>a\<close>
  that is not empty.
\<close>

type_synonym path = "string list"

fun segments :: "string \<Rightarrow> string list" where
  "segments [] = [[]]"
| "segments (c # cs) =
     (if c = CHR ''/'' then [] # segments cs
      else (case segments cs of [] \<Rightarrow> [[c]] | s # ss \<Rightarrow> (c # s) # ss))"

definition push_segment :: "path \<Rightarrow> string \<Rightarrow> path" where
  "push_segment p s =
     (if s = [] \<or> s = ''.'' then p else if s = ''..'' then butlast p else p @ [s])"

definition join :: "path \<Rightarrow> string \<Rightarrow> path" where
  "join p s = foldl push_segment p (segments s)"

definition ends_in_slash :: "string \<Rightarrow> bool" where
  "ends_in_slash s = (s \<noteq> [] \<and> last s = CHR ''/'')"

definition slash_after :: "string \<Rightarrow> string \<Rightarrow> bool" where
  "slash_after a b = (if b = [] then ends_in_slash a else ends_in_slash b)"

subsection \<open>Data\<close>

text \<open>The interface \<open>DeploymentState\<close> (server.ts, lines 12-17).\<close>

record DeploymentState =
  hash :: string
  port :: int
  entrypoint :: string
  timestamp :: string

text \<open>
  The values of JSON. A number is an integer or, by its digits, a number that is not one.
  \<open>state_json st\<close> is what \<open>JSON.stringify\<close> writes for a \<open>DeploymentState\<close> and
  \<open>JSON.parse\<close> reads back. The source gives a parsed value the type
  \<open>DeploymentState\<close> unchecked, so the value read from the state file can be any of
  these.
\<close>

datatype json =
    JNull
  | JBool bool
  | JInt int
  | JFraction string
  | JStr string
  | JArr "json list"
  | JObj "(string \<times> json) list"

definition state_json :: "DeploymentState \<Rightarrow> json" where
  "state_json st =
     JObj [(''hash'', JStr (hash st)), (''port'', JInt (port st)),
           (''entrypoint'', JStr (entrypoint st)), (''timestamp'', JStr (timestamp st))]"

text \<open>
  What JavaScript makes of a value read from JSON: whether it counts as true in an
  \<open>if\<close>, and the member of a given name (\<open>None\<close>: undefined). Of two members of an
  object with one name \<open>JSON.parse\<close> keeps the later. The names the server reads are
  \<open>hash\<close>, \<open>port\<close> and \<open>entrypoint\<close>: an array, a string, a number or a boolean has
  none of them.
\<close>

fun truthy :: "json \<Rightarrow> bool" where
  "truthy JNull = False"
| "truthy (JBool b) = b"
| "truthy (JInt n) = (n \<noteq> 0)"
| "truthy (JFraction digits) = True"
| "truthy (JStr s) = (s \<noteq> [])"
| "truthy (JArr xs) = True"
| "truthy (JObj members) = True"

fun member :: "json \<Rightarrow> string \<Rightarrow> json option" where
  "member (JObj members) name = map_of (rev members) name"
| "member j name = None"

text \<open>
  The contents of a file: \<open>Json j\<close> is text that \<open>JSON.parse\<close> reads as \<open>j\<close>; \<open>Raw\<close>
  is any other sequence of bytes. The body of an upload is kept as \<open>Raw\<close>: the server
  parses the state file only, and no upload is written there.
\<close>

datatype content = Raw string | Json json

datatype node = File content | Dir

type_synonym filesystem = "path \<Rightarrow> node option"

text \<open>
  The module an entrypoint file loads as: its default export, if any, with the
  \<open>fetch\<close> member of that export, if any, and its own export named \<open>fetch\<close>. A
  request handler is named by a string.
\<close>

type_synonym handler = string

record app_module =
  default_export :: "handler option option"
  fetch_export :: "handler option"

text \<open>
  The handle \<open>Bun.serve\<close> returns: the port its listener is bound to (\<open>server.port\<close>)
  and the \<open>fetch\<close> function it was given.
\<close>

datatype server = Server (srv_port: int) (srv_fetch: handler)

datatype error =
    EntrypointNotFound path
  | ImportError path
  | TypeError
  | ServeError
  | WriteError path
  | FsError path
  | ShellError string
  | StopError

text \<open>
  The world: the filesystem, the two module-level variables, and the application servers
  this process has started and not stopped (the listeners that are bound).
\<close>

record world =
  fs :: filesystem
  currentAppServer :: "server option"
  currentDeploymentHash :: "string option"
  listening :: "server list"

text \<open>
  What the program does not decide: the working directory, the clock
  (\<open>new Date().toISOString()\<close>), what \<open>tar -xzf\<close> unpacks from an archive (\<open>None\<close>: it
  exits with an error), what \<open>import\<close> makes of a file or directory (\<open>None\<close>: it
  rejects), the port \<open>Bun.serve\<close> takes when the \<open>port\<close> option is not an integer from
  1 to 65535 (for 0 the system chooses a free one; \<open>None\<close>: it throws), whether the
  operating system lets a port be bound, whether \<open>stop()\<close> of a server throws, and
  whether a file can be written (permissions, free space).
\<close>

record env =
  cwd :: path
  now :: string
  untar :: "string \<Rightarrow> (path \<Rightarrow> node option) option"
  load_module :: "path \<Rightarrow> node \<Rightarrow> app_module option"
  system_port :: "json option \<Rightarrow> int option"
  bind_ok :: "int \<Rightarrow> bool"
  stop_raises :: "server \<Rightarrow> bool"
  disk_ok :: "path \<Rightarrow> bool"

definition UPLOAD_PORT :: int where
  "UPLOAD_PORT = 7899"

definition DEPLOYMENTS_DIR :: "env \<Rightarrow> path" where
  "DEPLOYMENTS_DIR e = cwd e @ [''deployments'']"

definition STATE_FILE :: "env \<Rightarrow> path" where
  "STATE_FILE e = join (DEPLOYMENTS_DIR e) ''.state.json''"

subsection \<open>Results, exceptions and sequencing\<close>

type_synonym 'a io = "world \<Rightarrow> (error + 'a) \<times> world"

definition andThen :: "'a io \<Rightarrow> ('a \<Rightarrow> 'b io) \<Rightarrow> 'b io" where
  "andThen m f w = (case m w of (Inl err, w') \<Rightarrow> (Inl err, w') | (Inr x, w') \<Rightarrow> f x w')"

subsection \<open>The filesystem calls the server makes\<close>

definition is_file :: "node option \<Rightarrow> bool" where
  "is_file n = (case n of Some (File c) \<Rightarrow> True | _ \<Rightarrow> False)"

definition existsSync :: "world \<Rightarrow> path \<Rightarrow> bool" where
  "existsSync w p = (fs w p \<noteq> None)"

text \<open>
  \<open>existsSync\<close> of a path that may be written with a slash at its end (\<open>dir_only\<close>):
  then a file of that name is not found, only a directory.
\<close>

definition existsSync_as :: "world \<Rightarrow> path \<Rightarrow> bool \<Rightarrow> bool" where
  "existsSync_as w p dir_only = (if dir_only then fs w p = Some Dir else existsSync w p)"

text \<open>
  \<open>mkdirSync(p, {recursive: true})\<close>: every missing directory on the way to \<open>p\<close> is
  created; it throws when a file is in the way.
\<close>

definition mkdirSync :: "path \<Rightarrow> unit io" where
  "mkdirSync p w =
     (if list_ex (\<lambda>q. is_file (fs w q)) (prefixes p) then (Inl (FsError p), w)
      else (Inr (), w\<lparr>fs := (\<lambda>q. if prefix q p then Some Dir else fs w q)\<rparr>))"

text \<open>
  \<open>Bun.write(p, data)\<close>: the file is created or overwritten, with the directories above
  it when they are missing. It throws when the disk refuses, when \<open>p\<close> is a directory,
  or when a file stands where a directory is needed; then nothing is written.
\<close>

definition Bun_write :: "env \<Rightarrow> path \<Rightarrow> content \<Rightarrow> unit io" where
  "Bun_write e p c w =
     (if p = [] \<or> fs w p = Some Dir
         \<or> list_ex (\<lambda>q. is_file (fs w q)) (prefixes (butlast p)) \<or> \<not> disk_ok e p
      then (Inl (WriteError p), w)
      else (Inr (), w\<lparr>fs := (\<lambda>q. if q = p then Some (File c)
                                   else if prefix q (butlast p) then Some Dir
                                   else fs w q)\<rparr>))"

text \<open>\<open>rm -rf p\<close>: \<open>p\<close> and everything below it is gone.\<close>

definition rm_rf :: "path \<Rightarrow> unit io" where
  "rm_rf p w = (Inr (), w\<lparr>fs := (\<lambda>q. if prefix p q then None else fs w q)\<rparr>)"

text \<open>\<open>rm p\<close>: removes the file \<open>p\<close>; it fails when there is no such file.\<close>

definition rm :: "path \<Rightarrow> unit io" where
  "rm p w =
     (if is_file (fs w p) then (Inr (), w\<lparr>fs := (fs w)(p := None)\<rparr>)
      else (Inl (ShellError ''rm''), w))"

text \<open>
  \<open>tar -xzf src -C dst\<close>: the members of the archive are written below \<open>dst\<close>, over
  what is there; what the archive does not name stays as it is. It fails when \<open>src\<close>
  is not a readable archive or \<open>dst\<close> is not a directory.
\<close>

definition tar_xzf :: "env \<Rightarrow> path \<Rightarrow> path \<Rightarrow> unit io" where
  "tar_xzf e src dst w =
     (case fs w src of
        Some (File (Raw bytes)) \<Rightarrow>
          (case untar e bytes of
             None \<Rightarrow> (Inl (ShellError ''tar''), w)
           | Some members \<Rightarrow>
               if fs w dst \<noteq> Some Dir then (Inl (ShellError ''tar''), w)
               else (Inr (), w\<lparr>fs := (\<lambda>q. if strict_prefix dst q
                                            then (case members (drop (length dst) q) of
                                                    Some n \<Rightarrow> Some n
                                                  | None \<Rightarrow> fs w q)
                                            else fs w q)\<rparr>))
      | _ \<Rightarrow> (Inl (ShellError ''tar''), w))"

subsection \<open>saveDeploymentState, loadDeploymentState (lines 28-62)\<close>

text \<open>
  The types of TypeScript are not checked when the program runs: the recovery passes
  \<open>startApp\<close> the port member of whatever the state file holds. So the port of
  \<open>startApp\<close>, \<open>Bun.serve\<close> and \<open>saveDeploymentState\<close> is a value of JSON or undefined
  (\<open>None\<close>); \<open>handleUpload\<close> always passes an integer. \<open>JSON.stringify\<close> leaves out a
  member that is undefined. For the integer \<open>p\<close> the object written is
  \<open>state_json \<lparr>hash = h, port = p, entrypoint = ep, timestamp = now e\<rparr>\<close>.
\<close>

definition saveDeploymentState :: "env \<Rightarrow> string \<Rightarrow> json option \<Rightarrow> string \<Rightarrow> unit io" where
  "saveDeploymentState e hash' port' entrypoint' =
     (let state = JObj ((''hash'', JStr hash')
                        # (case port' of None \<Rightarrow> [] | Some v \<Rightarrow> [(''port'', v)])
                        @ [(''entrypoint'', JStr entrypoint'), (''timestamp'', JStr (now e))])
      in Bun_write e (STATE_FILE e) (Json state))"

text \<open>
  The \<open>try\<close> covers reading, parsing and the log lines: a state file that cannot be read
  (it is a directory) or parsed gives \<open>null\<close>, as a missing one does, and so does the
  text \<open>null\<close>, since the log line reads its \<open>hash\<close>. Every other parsed value is
  returned as it is.
\<close>

definition loadDeploymentState :: "env \<Rightarrow> world \<Rightarrow> json option" where
  "loadDeploymentState e w =
     (if \<not> existsSync w (STATE_FILE e) then None
      else (case fs w (STATE_FILE e) of
              Some (File (Json state)) \<Rightarrow> (if state = JNull then None else Some state)
            | _ \<Rightarrow> None))"

subsection \<open>stopCurrentApp, startApp (lines 64-110)\<close>

definition stopCurrentApp :: "env \<Rightarrow> unit io" where
  "stopCurrentApp e w =
     (case currentAppServer w of
        None \<Rightarrow> (Inr (), w)
      | Some s \<Rightarrow>
          if stop_raises e s then (Inl StopError, w)
          else (Inr (), w\<lparr>currentAppServer := None, listening := removeAll s (listening w)\<rparr>))"

text \<open>
  \<open>await import(entrypointPath)\<close>: what the file, or the directory, at the path loads
  as. The modules a process has loaded stay loaded, so a second import of one path gives
  the module of the first; that cache is not modelled.
\<close>

definition import_module :: "env \<Rightarrow> path \<Rightarrow> app_module io" where
  "import_module e p w =
     (case fs w p of
        None \<Rightarrow> (Inl (ImportError p), w)
      | Some n \<Rightarrow>
          (case load_module e p n of None \<Rightarrow> (Inl (ImportError p), w) | Some m \<Rightarrow> (Inr m, w)))"

text \<open>
  \<open>app.default.fetch || app.fetch\<close>: reading \<open>fetch\<close> of a missing default export
  throws a TypeError; the result may still be undefined.
\<close>

definition resolve_fetch :: "app_module \<Rightarrow> handler option io" where
  "resolve_fetch m w =
     (case default_export m of
        None \<Rightarrow> (Inl TypeError, w)
      | Some None \<Rightarrow> (Inr (fetch_export m), w)
      | Some (Some f) \<Rightarrow> (Inr (Some f), w))"

text \<open>
  The port \<open>Bun.serve\<close> binds for a \<open>port\<close> option: an integer from 1 to 65535 is the
  port itself; for every other value (0, a number out of range, no number at all) the
  port, if any, is the system's choice.
\<close>

definition port_for :: "env \<Rightarrow> json option \<Rightarrow> int option" where
  "port_for e port' =
     (case port' of
        Some (JInt n) \<Rightarrow> if 0 < n \<and> n \<le> 65535 then Some n else system_port e port'
      | _ \<Rightarrow> system_port e port')"

text \<open>
  \<open>Bun.serve({port, fetch, error})\<close>: throws without a \<open>fetch\<close> function, when no port
  is found for the option, and when the port cannot be bound: the upload server or an
  application server of this process holds it, or the operating system refuses.
\<close>

definition Bun_serve :: "env \<Rightarrow> json option \<Rightarrow> handler option \<Rightarrow> server io" where
  "Bun_serve e port' f w =
     (case f of
        None \<Rightarrow> (Inl TypeError, w)
      | Some h \<Rightarrow>
          (case port_for e port' of
             None \<Rightarrow> (Inl ServeError, w)
           | Some p \<Rightarrow>
               if p = UPLOAD_PORT \<or> p \<in> srv_port ` set (listening w) \<or> \<not> bind_ok e p
               then (Inl ServeError, w)
               else (Inr (Server p h), w\<lparr>listening := Server p h # listening w\<rparr>)))"

definition startApp :: "env \<Rightarrow> string \<Rightarrow> json option \<Rightarrow> string \<Rightarrow> unit io" where
  "startApp e hash' port' entrypoint' w =
     (let deploymentPath = join (DEPLOYMENTS_DIR e) hash';
          entrypointPath = join deploymentPath entrypoint'
      in if \<not> existsSync_as w entrypointPath (slash_after hash' entrypoint')
         then (Inl (EntrypointNotFound entrypointPath), w)
         else andThen (import_module e entrypointPath) (\<lambda>app.
              andThen (resolve_fetch app) (\<lambda>f.
              andThen (Bun_serve e port' f) (\<lambda>srv.
              andThen (\<lambda>w. (Inr (), w\<lparr>currentAppServer := Some srv\<rparr>)) (\<lambda>_.
              andThen (\<lambda>w. (Inr (), w\<lparr>currentDeploymentHash := Some hash'\<rparr>)) (\<lambda>_.
              saveDeploymentState e hash' port' entrypoint'))))) w)"

subsection \<open>handleUpload (lines 112-210)\<close>

text \<open>
  \<open>parseInt(port)\<close> with no radix: leading white space is skipped (of the characters
  a header value can hold: tab, line feed, vertical tab, form feed, carriage return,
  space and no-break space), then an optional sign, then \<open>0x\<close> or \<open>0X\<close> selects
  base sixteen; the longest run of digits of the base is the number and what follows is
  ignored. No digit at all is NaN, here \<open>None\<close>. The value is the exact integer, where
  a JavaScript number rounds beyond \<open>2^53\<close> and is infinite beyond \<open>2^1024\<close>.
\<close>

definition is_white :: "char \<Rightarrow> bool" where
  "is_white c = (of_char c \<in> {9, 10, 11, 12, 13, 32, 160 :: nat})"

definition digit_value :: "char \<Rightarrow> nat option" where
  "digit_value c =
     (let n = (of_char c :: nat) in
      if 48 \<le> n \<and> n \<le> 57 then Some (n - 48)
      else if 97 \<le> n \<and> n \<le> 122 then Some (n - 87)
      else if 65 \<le> n \<and> n \<le> 90 then Some (n - 55)
      else None)"

definition is_digit :: "nat \<Rightarrow> char \<Rightarrow> bool" where
  "is_digit radix c = (case digit_value c of None \<Rightarrow> False | Some d \<Rightarrow> d < radix)"

definition digits_value :: "nat \<Rightarrow> string \<Rightarrow> nat" where
  "digits_value radix z =
     foldl (\<lambda>acc c. acc * radix + (case digit_value c of None \<Rightarrow> 0 | Some d \<Rightarrow> d)) 0 z"

definition parseInt :: "string \<Rightarrow> int option" where
  "parseInt input =
     (let s = dropWhile is_white input;
          negative = (take 1 s = ''-'');
          s = (if take 1 s = ''-'' \<or> take 1 s = ''+'' then drop 1 s else s);
          hex = (take 2 s = ''0x'' \<or> take 2 s = ''0X'');
          radix = (if hex then 16 else 10);
          s = (if hex then drop 2 s else s);
          z = takeWhile (is_digit radix) s
      in if z = [] then None
         else Some ((if negative then - 1 else 1) * int (digits_value radix z)))"

record request =
  pathname :: string
  "method" :: string
  headers :: "string \<Rightarrow> string option"
  body :: string

text \<open>
  The two plain-text bodies of a 400 response, and the bodies of the other responses:
  the JSON objects without their \<open>message\<close>, \<open>duration\<close> and \<open>uptime\<close> members.
\<close>

datatype reason = MissingDeployInfo | InvalidPort

datatype payload =
    Text reason
  | UploadSuccess string int
  | UploadFailure error
  | StatusReport "string option" int path
  | NotFound

record response =
  status :: nat
  payload :: payload

text \<open>
  Lines 139-169: the body is written to a temporary file, the deployment directory is
  removed if it exists and created again, the archive is unpacked into it and the
  temporary file is removed. The name of the temporary file is taken as normalised the
  way \<open>join\<close> does it; the system resolves \<open>..\<close> in it through the directories that
  exist.
\<close>

definition tempFile :: "string \<Rightarrow> path" where
  "tempFile hash' = join [] (''/tmp/deploy-'' @ hash' @ ''.tar.gz'')"

definition materialize :: "env \<Rightarrow> string \<Rightarrow> string \<Rightarrow> unit io" where
  "materialize e hash' bytes =
     (let deploymentPath = join (DEPLOYMENTS_DIR e) hash' in
      andThen (Bun_write e (tempFile hash') (Raw bytes)) (\<lambda>_.
      andThen (\<lambda>w. if existsSync_as w deploymentPath (ends_in_slash hash')
                    then rm_rf deploymentPath w
                    else (Inr (), w)) (\<lambda>_.
      andThen (mkdirSync deploymentPath) (\<lambda>_.
      andThen (tar_xzf e (tempFile hash') deploymentPath) (\<lambda>_.
      rm (tempFile hash'))))))"

text \<open>Lines 139-175, the part of the \<open>try\<close> block after the headers are checked.\<close>

definition deploy :: "env \<Rightarrow> string \<Rightarrow> int \<Rightarrow> string \<Rightarrow> string \<Rightarrow> unit io" where
  "deploy e hash' appPort entrypoint' bytes =
     andThen (materialize e hash' bytes) (\<lambda>_.
     andThen (stopCurrentApp e) (\<lambda>_.
     startApp e hash' (Some (JInt appPort)) entrypoint'))"

definition handleUpload :: "env \<Rightarrow> request \<Rightarrow> world \<Rightarrow> response \<times> world" where
  "handleUpload e request w =
     (case (headers request ''X-Deploy-Hash'', headers request ''X-Deploy-Port'',
            headers request ''X-Deploy-Entrypoint'') of
        (Some hash', Some port', Some entrypoint') \<Rightarrow>
          if hash' = [] \<or> port' = [] \<or> entrypoint' = []
          then (\<lparr>status = 400, payload = Text MissingDeployInfo\<rparr>, w)
          else (case parseInt port' of
                  None \<Rightarrow> (\<lparr>status = 400, payload = Text InvalidPort\<rparr>, w)
                | Some appPort \<Rightarrow>
                    (case deploy e hash' appPort entrypoint' (body request) w of
                       (Inr u, w') \<Rightarrow>
                         (\<lparr>status = 200, payload = UploadSuccess hash' appPort\<rparr>, w')
                     | (Inl err, w') \<Rightarrow>
                         (\<lparr>status = 500, payload = UploadFailure err\<rparr>, w')))
      | _ \<Rightarrow> (\<lparr>status = 400, payload = Text MissingDeployInfo\<rparr>, w))"

subsection \<open>The upload server (lines 218-249) and the recovery at startup (lines 257-285)\<close>

definition uploadServer_fetch :: "env \<Rightarrow> request \<Rightarrow> world \<Rightarrow> response \<times> world" where
  "uploadServer_fetch e request w =
     (if pathname request = ''/upload'' \<and> method request = ''POST''
      then handleUpload e request w
      else if pathname request = ''/status'' \<and> method request = ''GET''
      then (\<lparr>status = 200,
             payload = StatusReport (currentDeploymentHash w) UPLOAD_PORT (DEPLOYMENTS_DIR e)\<rparr>,
            w)
      else (\<lparr>status = 404, payload = NotFound\<rparr>, w))"

text \<open>
  The anonymous function that restores the last deployment. Its \<open>try\<close> covers the call
  of \<open>startApp\<close> only: an error there is logged and the function returns normally. The
  \<open>join\<close> of line 263 is outside it and throws a TypeError when the \<open>hash\<close> of the
  loaded value is not a string; nothing handles that rejection. Inside \<open>startApp\<close> the
  \<open>join\<close> of line 79 throws the same way for an \<open>entrypoint\<close> that is not a string,
  before anything else is done.
\<close>

definition recover :: "env \<Rightarrow> unit io" where
  "recover e w =
     (case loadDeploymentState e w of
        None \<Rightarrow> (Inr (), w)
      | Some lastState \<Rightarrow>
          if \<not> truthy lastState then (Inr (), w)
          else (case member lastState ''hash'' of
                  Some (JStr hash') \<Rightarrow>
                    (let deploymentPath = join (DEPLOYMENTS_DIR e) hash'
                     in if existsSync_as w deploymentPath (ends_in_slash hash')
                        then (case member lastState ''entrypoint'' of
                                Some (JStr entrypoint') \<Rightarrow>
                                  (case startApp e hash' (member lastState ''port'')
                                          entrypoint' w of
                                     (Inr u, w') \<Rightarrow> (Inr (), w')
                                   | (Inl err, w') \<Rightarrow> (Inr (), w'))
                              | _ \<Rightarrow> (Inr (), w))
                        else (Inr (), w))
                | _ \<Rightarrow> (Inl TypeError, w)))"

text \<open>
  The start of the process (lines 19-25): the deployments directory is created when
  it is missing, no application is running and none has been started.
\<close>

definition boot :: "env \<Rightarrow> filesystem \<Rightarrow> (error + unit) \<times> world" where
  "boot e disk =
     (let w = \<lparr>fs = disk, currentAppServer = None, currentDeploymentHash = None,
               listening = []\<rparr>
      in if \<not> existsSync w (DEPLOYMENTS_DIR e) then mkdirSync (DEPLOYMENTS_DIR e) w
         else (Inr (), w))"

subsection \<open>Uploads that overlap\<close>

text \<open>
  \<open>handleUpload\<close> is an async function: at an \<open>await\<close> of input or output another
  request can be handled. A task is an upload between two such points: arrived; unpacked
  (after the last \<open>await\<close> of lines 139-169); waiting for \<open>import\<close> in \<open>startApp\<close>
  (line 92), with what the import will give; waiting for the write of the state file
  (line 109); answered. A step of a task runs the code from one point to the next: the
  headers and the unpacking; \<open>stopCurrentApp\<close> and \<open>startApp\<close> up to the import;
  \<open>Bun.serve\<close> and the two assignments; \<open>saveDeploymentState\<close> and the response.
  A thrown exception ends the task with the response of the \<open>catch\<close>.
\<close>

datatype task =
    Arrived request
  | Unpacked string int string
  | Importing string int string "error + app_module"
  | Saving string int string
  | Responded response

definition failed :: "error \<Rightarrow> task" where
  "failed err = Responded \<lparr>status = 500, payload = UploadFailure err\<rparr>"

fun step :: "env \<Rightarrow> task \<Rightarrow> world \<Rightarrow> task \<times> world" where
  "step e (Arrived request) w =
     (case (headers request ''X-Deploy-Hash'', headers request ''X-Deploy-Port'',
            headers request ''X-Deploy-Entrypoint'') of
        (Some hash', Some port', Some entrypoint') \<Rightarrow>
          if hash' = [] \<or> port' = [] \<or> entrypoint' = []
          then (Responded \<lparr>status = 400, payload = Text MissingDeployInfo\<rparr>, w)
          else (case parseInt port' of
                  None \<Rightarrow> (Responded \<lparr>status = 400, payload = Text InvalidPort\<rparr>, w)
                | Some appPort \<Rightarrow>
                    (case materialize e hash' (body request) w of
                       (Inl err, w') \<Rightarrow> (failed err, w')
                     | (Inr u, w') \<Rightarrow> (Unpacked hash' appPort entrypoint', w')))
      | _ \<Rightarrow> (Responded \<lparr>status = 400, payload = Text MissingDeployInfo\<rparr>, w))"
| "step e (Unpacked hash' appPort entrypoint') w =
     (case stopCurrentApp e w of
        (Inl err, w') \<Rightarrow> (failed err, w')
      | (Inr u, w') \<Rightarrow>
          (let entrypointPath = join (join (DEPLOYMENTS_DIR e) hash') entrypoint'
           in if \<not> existsSync_as w' entrypointPath (slash_after hash' entrypoint')
              then (failed (EntrypointNotFound entrypointPath), w')
              else (Importing hash' appPort entrypoint'
                      (fst (import_module e entrypointPath w')), w')))"
| "step e (Importing hash' appPort entrypoint' imported) w =
     (case imported of
        Inl err \<Rightarrow> (failed err, w)
      | Inr app \<Rightarrow>
          (case andThen (resolve_fetch app) (\<lambda>f.
                andThen (Bun_serve e (Some (JInt appPort)) f) (\<lambda>srv.
                andThen (\<lambda>w. (Inr (), w\<lparr>currentAppServer := Some srv\<rparr>)) (\<lambda>_.
                (\<lambda>w. (Inr (), w\<lparr>currentDeploymentHash := Some hash'\<rparr>))))) w of
             (Inl err, w') \<Rightarrow> (failed err, w')
           | (Inr u, w') \<Rightarrow> (Saving hash' appPort entrypoint', w')))"
| "step e (Saving hash' appPort entrypoint') w =
     (case saveDeploymentState e hash' (Some (JInt appPort)) entrypoint' w of
        (Inl err, w') \<Rightarrow> (failed err, w')
      | (Inr u, w') \<Rightarrow> (Responded \<lparr>status = 200, payload = UploadSuccess hash' appPort\<rparr>, w'))"
| "step e (Responded response) w = (Responded response, w)"

text \<open>
  Two uploads and a schedule that says, step by step, which of them goes on (\<open>True\<close>:
  the second). \<open>alone\<close> is one upload taking its four steps with nothing in between.
\<close>

fun interleave :: "env \<Rightarrow> bool list \<Rightarrow> task \<times> task \<times> world \<Rightarrow> task \<times> task \<times> world" where
  "interleave e [] s = s"
| "interleave e (second # schedule) (t1, t2, w) =
     (if second then (case step e t2 w of (t2', w') \<Rightarrow> interleave e schedule (t1, t2', w'))
      else (case step e t1 w of (t1', w') \<Rightarrow> interleave e schedule (t1', t2, w')))"

definition alone :: "env \<Rightarrow> request \<Rightarrow> world \<Rightarrow> task \<times> world" where
  "alone e request w =
     (case step e (Arrived request) w of (t1, w1) \<Rightarrow>
      case step e t1 w1 of (t2, w2) \<Rightarrow>
      case step e t2 w2 of (t3, w3) \<Rightarrow> step e t3 w3)"

definition response_of :: "task \<Rightarrow> response option" where
  "response_of t = (case t of Responded response \<Rightarrow> Some response | _ \<Rightarrow> None)"

text \<open>The upload server handling requests one after the other.\<close>

definition serve_all :: "env \<Rightarrow> request list \<Rightarrow> world \<Rightarrow> world" where
  "serve_all e requests w = foldl (\<lambda>w request. snd (uploadServer_fetch e request w)) w requests"

subsection \<open>What a step leaves alone, and the state of a process that runs one instance\<close>

text \<open>
  \<open>same_process\<close>: the two variables and the bound listeners are the same in both
  worlds. \<open>single_instance\<close>: the bound listeners are exactly the server held in
  \<open>currentAppServer\<close>, if any; it holds when the process starts.
\<close>

definition same_process :: "world \<Rightarrow> world \<Rightarrow> bool" where
  "same_process w w' =
     (currentAppServer w' = currentAppServer w
      \<and> currentDeploymentHash w' = currentDeploymentHash w
      \<and> listening w' = listening w)"

definition single_instance :: "world \<Rightarrow> bool" where
  "single_instance w =
     (listening w = (case currentAppServer w of None \<Rightarrow> [] | Some s \<Rightarrow> [s]))"

subsection \<open>The words of the specification\<close>

text \<open>
  Section 6 of the specification: the value of \<open>X-Deploy-Port\<close> is a decimal integer,
  that is an optional sign and then decimal digits only, at least one.
\<close>

definition decimal_integer :: "string \<Rightarrow> bool" where
  "decimal_integer s =
     (let d = (if take 1 s = ''-'' \<or> take 1 s = ''+'' then drop 1 s else s)
      in d \<noteq> [] \<and> list_all (is_digit 10) d)"

text \<open>
  Section 7 of the specification: the failures of the start of an instance are a missing
  entrypoint file, a module that does not load or gives no handler, and a port that
  cannot be bound. A failed write of the state file is none of them.
\<close>

definition instance_start_error :: "error \<Rightarrow> bool" where
  "instance_start_error err =
     (case err of
        EntrypointNotFound p \<Rightarrow> True
      | ImportError p \<Rightarrow> True
      | TypeError \<Rightarrow> True
      | ServeError \<Rightarrow> True
      | _ \<Rightarrow> False)"

subsection \<open>An example environment\<close>

text \<open>
  The server runs in \<open>/app\<close>. Archives A and B hold an \<open>index.js\<close> each, two modules
  whose default exports have a \<open>fetch\<close>; archive E holds no \<open>index.js\<close>. Asked for port 0 the system chooses
  49152; every port can be bound, every file written, and \<open>stop()\<close> does not throw.
\<close>

definition example_env :: env where
  "example_env =
     \<lparr>cwd = [''app''], now = ''2025-01-01T12:00:00.000Z'',
      untar = (\<lambda>bytes. if bytes = ''archive-A''
                        then Some [[''index.js''] \<mapsto> File (Raw ''export default { fetch }'')]
                        else if bytes = ''archive-B''
                        then Some [[''index.js''] \<mapsto> File (Raw ''export default app'')]
                        else if bytes = ''archive-E''
                        then Some [[''readme.txt''] \<mapsto> File (Raw ''hello'')]
                        else None),
      load_module = (\<lambda>p n. if n = File (Raw ''export default { fetch }'')
                            then Some \<lparr>default_export = Some (Some ''fetch''), fetch_export = None\<rparr>
                            else if n = File (Raw ''export default app'')
                            then Some \<lparr>default_export = Some (Some ''app.fetch''),
                                       fetch_export = None\<rparr>
                            else None),
      system_port = (\<lambda>v. if v = Some (JInt 0) then Some 49152 else None),
      bind_ok = (\<lambda>p. True), stop_raises = (\<lambda>s. False), disk_ok = (\<lambda>p. True)\<rparr>"

definition upload :: "string \<Rightarrow> string \<Rightarrow> string \<Rightarrow> string \<Rightarrow> request" where
  "upload h p ep b =
     \<lparr>pathname = ''/upload'', method = ''POST'',
      headers = [''X-Deploy-Hash'' \<mapsto> h, ''X-Deploy-Port'' \<mapsto> p, ''X-Deploy-Entrypoint'' \<mapsto> ep],
      body = b\<rparr>"

definition fresh_world :: world where
  "fresh_world = snd (boot example_env Map.empty)"

text \<open>The server after the upload of archive A as version v1 for port 3000.\<close>

definition v1_world :: world where
  "v1_world =
     snd (handleUpload example_env (upload ''v1'' ''3000'' ''index.js'' ''archive-A'') fresh_world)"

definition status_request :: request where
  "status_request = \<lparr>pathname = ''/status'', method = ''GET'', headers = Map.empty, body = []\<rparr>"

text \<open>
  The server after version v1 was uploaded again, with archive E: the directory of v1
  has lost its \<open>index.js\<close>, the start failed and the state file still names v1.
\<close>

definition broken_v1_world :: world where
  "broken_v1_world =
     snd (handleUpload example_env (upload ''v1'' ''3000'' ''index.js'' ''archive-E'') v1_world)"

text \<open>The process started again on the filesystem another run has left.\<close>

definition restarted :: "world \<Rightarrow> world" where
  "restarted w = snd (boot example_env (fs w))"

text \<open>The example environment with a state file that cannot be written.\<close>

definition read_only_state :: env where
  "read_only_state = example_env\<lparr>disk_ok := \<lambda>p. p \<noteq> [''app'', ''deployments'', ''.state.json'']\<rparr>"


text \<open>A server that has just started and finds a state file holding an empty object.\<close>

definition empty_object_world :: world where
  "empty_object_world =
     fresh_world\<lparr>fs := (fs fresh_world)(STATE_FILE example_env \<mapsto> File (Json (JObj [])))\<rparr>"

section \<open>Properties\<close>

subsection \<open>Sequencing and frame lemmas\<close>

lemma andThen_Inl: "m w = (Inl err, w') \<Longrightarrow> andThen m f w = (Inl err, w')"
  by (simp add: andThen_def)

lemma andThen_Inr: "m w = (Inr x, w') \<Longrightarrow> andThen m f w = f x w'"
  by (simp add: andThen_def)


lemma same_process_refl: "same_process w w"
  by (simp add: same_process_def)

lemma same_process_trans: "same_process w w1 \<Longrightarrow> same_process w1 w2 \<Longrightarrow> same_process w w2"
  by (simp add: same_process_def)

lemma Bun_write_process: "same_process w (snd (Bun_write e p c w))"
  by (simp add: Bun_write_def same_process_def)

lemma rm_rf_process: "same_process w (snd (rm_rf p w))"
  by (simp add: rm_rf_def same_process_def)

lemma mkdirSync_process: "same_process w (snd (mkdirSync p w))"
  by (simp add: mkdirSync_def same_process_def)

lemma rm_process: "same_process w (snd (rm p w))"
  by (simp add: rm_def same_process_def)

lemma tar_xzf_process: "same_process w (snd (tar_xzf e src dst w))"
  by (simp add: tar_xzf_def same_process_def split: option.splits node.splits content.splits)

lemma andThen_process:
  assumes "\<And>w. same_process w (snd (m w))" and "\<And>x w. same_process w (snd (f x w))"
  shows "same_process w (snd (andThen m f w))"
proof (cases "m w")
  case (Pair r w')
  have 1: "same_process w w'" using assms(1) [of w] Pair by simp
  show ?thesis
  proof (cases r)
    case (Inl err)
    then show ?thesis using Pair 1 by (simp add: andThen_def)
  next
    case (Inr x)
    have "same_process w' (snd (f x w'))" by (rule assms(2))
    then show ?thesis using Pair Inr 1 by (simp add: andThen_def same_process_trans)
  qed
qed

lemma materialize_process: "same_process w (snd (materialize e hash' bytes w))"
  unfolding materialize_def Let_def
  by (intro andThen_process Bun_write_process mkdirSync_process tar_xzf_process rm_process)
     (simp add: rm_rf_process same_process_refl)

lemma stopCurrentApp_Inr:
  assumes "stopCurrentApp e w = (Inr u, w')"
  shows "currentAppServer w' = None" "fs w' = fs w"
    "currentDeploymentHash w' = currentDeploymentHash w"
    "single_instance w \<Longrightarrow> listening w' = []"
  using assms
  by (auto simp: stopCurrentApp_def single_instance_def split: option.splits if_splits)

lemma stopCurrentApp_Inl:
  assumes "stopCurrentApp e w = (Inl err, w')"
  shows "w' = w" "err = StopError" "\<exists>s. currentAppServer w = Some s \<and> stop_raises e s"
  using assms by (auto simp: stopCurrentApp_def split: option.splits if_splits)

lemma state_json_members:
  "JObj ((''hash'', JStr h) # (case Some (JInt p) of None \<Rightarrow> [] | Some v \<Rightarrow> [(''port'', v)])
         @ [(''entrypoint'', JStr ep), (''timestamp'', JStr t)])
   = state_json \<lparr>hash = h, port = p, entrypoint = ep, timestamp = t\<rparr>"
  by (simp add: state_json_def)

lemma saveDeploymentState_Inr:
  assumes "saveDeploymentState e hash' port' entrypoint' w = (Inr u, w')"
  shows "same_process w w'"
    "port' = Some (JInt p) \<Longrightarrow> fs w' (STATE_FILE e) = Some (File (Json (state_json
           \<lparr>hash = hash', port = p, entrypoint = entrypoint', timestamp = now e\<rparr>)))"
  using assms
  by (auto simp: saveDeploymentState_def Bun_write_def same_process_def state_json_def
           split: if_splits)

lemma saveDeploymentState_Inl:
  assumes "saveDeploymentState e hash' port' entrypoint' w = (Inl err, w')"
  shows "w' = w" "err = WriteError (STATE_FILE e)"
  using assms
  by (auto simp: saveDeploymentState_def Bun_write_def split: if_splits)

lemma loadDeploymentState_state_json:
  "fs w (STATE_FILE e) = Some (File (Json (state_json st)))
   \<Longrightarrow> loadDeploymentState e w = Some (state_json st)"
  by (simp add: loadDeploymentState_def existsSync_def state_json_def)

lemma import_module_world: "snd (import_module e p w) = w"
  by (simp add: import_module_def split: option.splits)

lemma resolve_fetch_world: "snd (resolve_fetch m w) = w"
  by (simp add: resolve_fetch_def split: option.splits)

lemma Bun_serve_Inr:
  assumes "Bun_serve e port' f w = (Inr srv, w')"
  shows "port_for e port' = Some (srv_port srv)" "w' = w\<lparr>listening := srv # listening w\<rparr>"
  using assms by (auto simp: Bun_serve_def split: option.splits if_splits)

lemma Bun_serve_Inl:
  assumes "Bun_serve e port' f w = (Inl err, w')"
  shows "w' = w" "instance_start_error err"
  using assms
  by (auto simp: Bun_serve_def instance_start_error_def split: option.splits if_splits)

text \<open>
  \<open>startApp\<close> is the start of the instance (lines 76-104: the entrypoint, the import,
  the handler, \<open>Bun.serve\<close> and the two assignments) and then the save of the state.
\<close>

lemma startApp_launch:
  assumes "startApp e hash' port' entrypoint' w = (r, w')"
  shows "(\<exists>err. r = Inl err \<and> instance_start_error err \<and> w' = w)
         \<or> (\<exists>srv. port_for e port' = Some (srv_port srv)
               \<and> saveDeploymentState e hash' port' entrypoint'
                    (w\<lparr>listening := srv # listening w, currentAppServer := Some srv,
                       currentDeploymentHash := Some hash'\<rparr>) = (r, w'))"
proof -
  let ?ep = "join (join (DEPLOYMENTS_DIR e) hash') entrypoint'"
  show ?thesis
  proof (cases "existsSync_as w ?ep (slash_after hash' entrypoint')")
    case False
    with assms show ?thesis
      by (auto simp: startApp_def Let_def instance_start_error_def)
  next
    case True
    note ex = this
    obtain r1 where imp: "import_module e ?ep w = (r1, w)"
      using import_module_world [of e ?ep w] by (cases "import_module e ?ep w") simp
    show ?thesis
    proof (cases r1)
      case (Inl x)
      then have "r = Inl x" "w' = w" using assms ex imp
        by (auto simp: startApp_def Let_def andThen_def)
      moreover have "instance_start_error x" using imp Inl
        by (auto simp: import_module_def instance_start_error_def split: option.splits)
      ultimately show ?thesis by simp
    next
      case (Inr app)
      note app = this
      obtain r2 where res: "resolve_fetch app w = (r2, w)"
        using resolve_fetch_world [of app w] by (cases "resolve_fetch app w") simp
      show ?thesis
      proof (cases r2)
        case (Inl x)
        then have "r = Inl x" "w' = w" using assms ex imp app res
          by (auto simp: startApp_def Let_def andThen_def)
        moreover have "instance_start_error x" using res Inl
          by (auto simp: resolve_fetch_def instance_start_error_def split: option.splits)
        ultimately show ?thesis by simp
      next
        case (Inr f)
        note f = this
        obtain r3 w3 where srv: "Bun_serve e port' f w = (r3, w3)"
          by (cases "Bun_serve e port' f w")
        show ?thesis
        proof (cases r3)
          case (Inl x)
          then have "r = Inl x" "w' = w3" using assms ex imp app res f srv
            by (auto simp: startApp_def Let_def andThen_def)
          with Bun_serve_Inl [of e port' f w x w3] srv Inl show ?thesis by simp
        next
          case (Inr s)
          note b = Bun_serve_Inr [of e port' f w s w3]
          have "saveDeploymentState e hash' port' entrypoint'
                  (w3\<lparr>currentAppServer := Some s, currentDeploymentHash := Some hash'\<rparr>)
                = (r, w')"
            using assms ex imp app res f srv Inr
            by (simp add: startApp_def Let_def andThen_def)
          with b srv Inr show ?thesis by auto
        qed
      qed
    qed
  qed
qed

text \<open>
  When \<open>startApp\<close> returns, the server it made is the current one and is bound, the
  version is the current one, and the state file holds the descriptor.
\<close>

lemma startApp_Inr:
  assumes "startApp e hash' port' entrypoint' w = (Inr u, w')"
  shows "\<exists>srv. currentAppServer w' = Some srv \<and> listening w' = srv # listening w
               \<and> port_for e port' = Some (srv_port srv)"
    "currentDeploymentHash w' = Some hash'"
    "port' = Some (JInt p) \<Longrightarrow> loadDeploymentState e w' = Some (state_json
       \<lparr>hash = hash', port = p, entrypoint = entrypoint', timestamp = now e\<rparr>)"
proof -
  from startApp_launch [OF assms] obtain srv where
    p: "port_for e port' = Some (srv_port srv)" and
    sav: "saveDeploymentState e hash' port' entrypoint'
            (w\<lparr>listening := srv # listening w, currentAppServer := Some srv,
               currentDeploymentHash := Some hash'\<rparr>) = (Inr u, w')"
    by auto
  note sp = saveDeploymentState_Inr [OF sav]
  show "\<exists>srv. currentAppServer w' = Some srv \<and> listening w' = srv # listening w
               \<and> port_for e port' = Some (srv_port srv)"
    using sp(1) p by (auto simp: same_process_def)
  show "currentDeploymentHash w' = Some hash'"
    using sp(1) by (simp add: same_process_def)
  show "loadDeploymentState e w' = Some (state_json
       \<lparr>hash = hash', port = p, entrypoint = entrypoint', timestamp = now e\<rparr>)"
    if "port' = Some (JInt p)"
    using sp(2) [OF that] by (rule loadDeploymentState_state_json)
qed

lemma port_for_in_range:
  "0 < p \<Longrightarrow> p \<le> 65535 \<Longrightarrow> port_for e (Some (JInt p)) = Some p"
  by (simp add: port_for_def)

text \<open>
  When \<open>startApp\<close> throws, either the start of the instance failed and nothing has
  changed, or the write of the state file failed: then the new server is bound and
  current and the version variable names the new version.
\<close>

lemma startApp_Inl:
  assumes "startApp e hash' port' entrypoint' w = (Inl err, w')"
  shows "(instance_start_error err \<and> w' = w)
         \<or> (err = WriteError (STATE_FILE e)
            \<and> (\<exists>srv. port_for e port' = Some (srv_port srv)
                  \<and> w' = w\<lparr>listening := srv # listening w,
                            currentAppServer := Some srv,
                            currentDeploymentHash := Some hash'\<rparr>))"
proof -
  from startApp_launch [OF assms] show ?thesis
  proof
    assume "\<exists>x. Inl err = Inl x \<and> instance_start_error x \<and> w' = w"
    then show ?thesis by auto
  next
    assume "\<exists>srv. port_for e port' = Some (srv_port srv)
               \<and> saveDeploymentState e hash' port' entrypoint'
                    (w\<lparr>listening := srv # listening w, currentAppServer := Some srv,
                       currentDeploymentHash := Some hash'\<rparr>) = (Inl err, w')"
    then obtain srv where p: "port_for e port' = Some (srv_port srv)" and
      sav: "saveDeploymentState e hash' port' entrypoint'
                    (w\<lparr>listening := srv # listening w, currentAppServer := Some srv,
                       currentDeploymentHash := Some hash'\<rparr>) = (Inl err, w')"
      by auto
    from saveDeploymentState_Inl [OF sav] p show ?thesis by auto
  qed
qed

lemma write_error_not_start [simp]: "\<not> instance_start_error (WriteError p)"
  by (simp add: instance_start_error_def)

lemma same_processD:
  "same_process w w' \<Longrightarrow> currentAppServer w' = currentAppServer w"
  "same_process w w' \<Longrightarrow> currentDeploymentHash w' = currentDeploymentHash w"
  "same_process w w' \<Longrightarrow> listening w' = listening w"
  by (simp_all add: same_process_def)

lemma materialize_single_instance:
  "materialize e hash' bytes w = (r, w') \<Longrightarrow> single_instance w \<Longrightarrow> single_instance w'"
  using materialize_process [of w e hash' bytes]
  by (simp add: same_process_def single_instance_def)

lemma stopCurrentApp_version:
  "currentDeploymentHash (snd (stopCurrentApp e w)) = currentDeploymentHash w"
  by (simp add: stopCurrentApp_def split: option.splits)

lemma startApp_version:
  "currentDeploymentHash w \<noteq> None
   \<Longrightarrow> currentDeploymentHash (snd (startApp e hash' port' entrypoint' w)) \<noteq> None"
proof (cases "startApp e hash' port' entrypoint' w")
  case (Pair r w')
  assume v: "currentDeploymentHash w \<noteq> None"
  show ?thesis
  proof (cases r)
    case (Inl err)
    with Pair startApp_Inl [of e hash' port' entrypoint' w err w'] v show ?thesis by auto
  next
    case (Inr u)
    with Pair startApp_Inr(2) [of e hash' port' entrypoint' w u w'] show ?thesis by simp
  qed
qed

lemma deploy_version:
  assumes "currentDeploymentHash w \<noteq> None"
  shows "currentDeploymentHash (snd (deploy e hash' appPort entrypoint' bytes w)) \<noteq> None"
proof -
  obtain r1 w1 where m: "materialize e hash' bytes w = (r1, w1)" by (cases "materialize e hash' bytes w")
  have v1: "currentDeploymentHash w1 \<noteq> None"
    using materialize_process [of w e hash' bytes] m assms by (simp add: same_process_def)
  obtain r2 w2 where s: "stopCurrentApp e w1 = (r2, w2)" by (cases "stopCurrentApp e w1")
  have v2: "currentDeploymentHash w2 \<noteq> None"
    using stopCurrentApp_version [of e w1] s v1 by simp
  show ?thesis
    using m s v1 v2 startApp_version [OF v2, of e hash' "Some (JInt appPort)" entrypoint']
    by (cases r1; cases r2) (simp_all add: deploy_def andThen_def)
qed

lemma handleUpload_version:
  assumes "currentDeploymentHash w \<noteq> None"
  shows "currentDeploymentHash (snd (handleUpload e request w)) \<noteq> None"
proof -
  have "currentDeploymentHash
          (snd (case deploy e h p ep (body request) w of
                  (Inr u, w') \<Rightarrow> (\<lparr>status = 200, payload = UploadSuccess h p\<rparr>, w')
                | (Inl err, w') \<Rightarrow> (\<lparr>status = 500, payload = UploadFailure err\<rparr>, w'))) \<noteq> None"
    for h p ep
  proof (cases "deploy e h p ep (body request) w")
    case (Pair r w')
    then have "currentDeploymentHash w' \<noteq> None"
      using deploy_version [OF assms, of e h p ep "body request"] by simp
    with Pair show ?thesis by (cases r) simp_all
  qed
  then show ?thesis
    using assms by (simp add: handleUpload_def split: option.splits)
qed

lemma snd_caught: "snd (case x of (a, w') \<Rightarrow> (Inr (), w')) = snd x"
  by (cases x) simp

lemma recover_world:
  "snd (recover e w) = w
   \<or> (\<exists>hash' port' entrypoint'. snd (recover e w) = snd (startApp e hash' port' entrypoint' w))"
  unfolding recover_def Let_def
  by (auto simp: snd_caught split: option.splits json.splits)

lemma recover_version:
  assumes "currentDeploymentHash w \<noteq> None"
  shows "currentDeploymentHash (snd (recover e w)) \<noteq> None"
  using recover_world [of e w] startApp_version [OF assms, of e] assms by auto

subsection \<open>Paths of the temporary file and of the state file\<close>








subsection \<open>What the filesystem calls do to the state file\<close>













subsection \<open>Uploads one after the other, and uploads that overlap\<close>

lemma step_failed [simp]: "step e (failed err) w = (failed err, w)"
  by (simp add: failed_def)

text \<open>The last three steps of a task that runs alone are stopCurrentApp and startApp.\<close>

lemma steps_after_unpacking:
  "(case step e (Unpacked hash' appPort entrypoint') w1 of (t2, w2) \<Rightarrow>
      case step e t2 w2 of (t3, w3) \<Rightarrow> step e t3 w3)
   = (case andThen (stopCurrentApp e) (\<lambda>_. startApp e hash' (Some (JInt appPort)) entrypoint') w1 of
        (Inl err, w') \<Rightarrow> (failed err, w')
      | (Inr u, w') \<Rightarrow> (Responded \<lparr>status = 200, payload = UploadSuccess hash' appPort\<rparr>, w'))"
proof (cases "stopCurrentApp e w1")
  case (Pair r w2)
  show ?thesis
  proof (cases r)
    case (Inl err)
    with Pair show ?thesis by (simp add: andThen_def)
  next
    case (Inr u)
    let ?ep = "join (join (DEPLOYMENTS_DIR e) hash') entrypoint'"
    show ?thesis
    proof (cases "existsSync_as w2 ?ep (slash_after hash' entrypoint')")
      case False
      with Pair Inr show ?thesis by (simp add: andThen_def startApp_def Let_def)
    next
      case True
      obtain r3 where imp: "import_module e ?ep w2 = (r3, w2)"
        using import_module_world [of e ?ep w2] by (cases "import_module e ?ep w2") simp
      show ?thesis
      proof (cases r3)
        case (Inl err)
        with Pair Inr True imp show ?thesis
          by (simp add: andThen_def startApp_def Let_def)
      next
        case (Inr app)
        let ?launch = "andThen (resolve_fetch app) (\<lambda>f.
                andThen (Bun_serve e (Some (JInt appPort)) f) (\<lambda>srv.
                andThen (\<lambda>w. (Inr (), w\<lparr>currentAppServer := Some srv\<rparr>)) (\<lambda>_.
                (\<lambda>w. (Inr (), w\<lparr>currentDeploymentHash := Some hash'\<rparr>)))))"
        have start: "startApp e hash' (Some (JInt appPort)) entrypoint' w2
                 = andThen ?launch
                     (\<lambda>_. saveDeploymentState e hash' (Some (JInt appPort)) entrypoint') w2"
          using True imp Inr
          by (simp add: startApp_def Let_def andThen_def
                   split: prod.splits sum.splits)
        obtain r4 w4 where l: "?launch w2 = (r4, w4)" by (cases "?launch w2")
        show ?thesis
        proof (cases r4)
          case (Inl err)
          with Pair \<open>r = Inr u\<close> True imp \<open>r3 = Inr app\<close> l start show ?thesis
            by (simp add: andThen_def)
        next
          case (Inr u4)
          with Pair \<open>r = Inr u\<close> True imp \<open>r3 = Inr app\<close> l start show ?thesis
            by (simp add: andThen_def split: prod.splits sum.splits)
        qed
      qed
    qed
  qed
qed

text \<open>A task that takes its four steps with nothing in between is handleUpload.\<close>

lemma steps_after_response:
  "(case step e (Responded r) w1 of (t2, w2) \<Rightarrow>
      case step e t2 w2 of (t3, w3) \<Rightarrow> step e t3 w3) = (Responded r, w1)"
  by simp

lemma alone_handleUpload:
  "alone e request w
     = (Responded (fst (handleUpload e request w)), snd (handleUpload e request w))"
proof -
  have valid: "(case (case materialize e h (body request) w of
                        (Inl err, w') \<Rightarrow> (failed err, w')
                      | (Inr u, w') \<Rightarrow> (Unpacked h p ep, w')) of
                  (t1, w1) \<Rightarrow>
                    case step e t1 w1 of (t2, w2) \<Rightarrow>
                    case step e t2 w2 of (t3, w3) \<Rightarrow> step e t3 w3)
               = (case deploy e h p ep (body request) w of
                    (Inr u, w') \<Rightarrow> (Responded \<lparr>status = 200, payload = UploadSuccess h p\<rparr>, w')
                  | (Inl err, w') \<Rightarrow> (Responded \<lparr>status = 500, payload = UploadFailure err\<rparr>, w'))"
    for h p ep
  proof (cases "materialize e h (body request) w")
    case (Pair r w1)
    show ?thesis
    proof (cases r)
      case (Inl err)
      with Pair show ?thesis by (simp add: deploy_def andThen_def failed_def)
    next
      case (Inr u)
      have "deploy e h p ep (body request) w
              = andThen (stopCurrentApp e) (\<lambda>_. startApp e h (Some (JInt p)) ep) w1"
        using Pair Inr by (simp add: deploy_def andThen_def)
      with Pair Inr steps_after_unpacking [of e h p ep w1] show ?thesis
        by (simp add: failed_def split: prod.splits sum.splits)
    qed
  qed
  show ?thesis
    unfolding alone_def handleUpload_def
    by (simp add: valid split: option.splits prod.splits sum.splits)
qed

lemma startApp_single_instance:
  assumes "startApp e hash' port' entrypoint' w = (r, w')"
      and "currentAppServer w = None" "listening w = []"
  shows "single_instance w'"
proof (cases r)
  case (Inl err)
  with assms startApp_Inl [of e hash' port' entrypoint' w err w'] show ?thesis
    by (auto simp: single_instance_def)
next
  case (Inr u)
  with assms startApp_Inr(1) [of e hash' port' entrypoint' w u w'] show ?thesis
    by (auto simp: single_instance_def)
qed

lemma deploy_single_instance:
  assumes dep: "deploy e hash' appPort entrypoint' bytes w = (r, w')"
      and one: "single_instance w"
  shows "single_instance w'"
proof -
  obtain r1 w1 where m: "materialize e hash' bytes w = (r1, w1)"
    by (cases "materialize e hash' bytes w")
  have one1: "single_instance w1" using m one by (rule materialize_single_instance)
  show ?thesis
  proof (cases r1)
    case (Inl x)
    then have "w' = w1" using dep m by (simp add: deploy_def andThen_def)
    with one1 show ?thesis by simp
  next
    case (Inr u1)
    obtain r2 w2 where s: "stopCurrentApp e w1 = (r2, w2)" by (cases "stopCurrentApp e w1")
    show ?thesis
    proof (cases r2)
      case (Inl x)
      then have "w' = w2" "w2 = w1"
        using dep m Inr s stopCurrentApp_Inl(1) [of e w1 x w2]
        by (simp_all add: deploy_def andThen_def)
      with one1 show ?thesis by simp
    next
      case (Inr u2)
      then have st: "startApp e hash' (Some (JInt appPort)) entrypoint' w2 = (r, w')"
        using dep m \<open>r1 = Inr u1\<close> s by (simp add: deploy_def andThen_def)
      have "currentAppServer w2 = None" "listening w2 = []"
        using stopCurrentApp_Inr(1,4) [of e w1 u2 w2] s Inr one1 by simp_all
      with st show ?thesis by (rule startApp_single_instance)
    qed
  qed
qed

lemma handleUpload_single_instance:
  assumes "single_instance w"
  shows "single_instance (snd (handleUpload e request w))"
proof -
  have "single_instance
          (snd (case deploy e h p ep (body request) w of
                  (Inr u, w') \<Rightarrow> (\<lparr>status = 200, payload = UploadSuccess h p\<rparr>, w')
                | (Inl err, w') \<Rightarrow> (\<lparr>status = 500, payload = UploadFailure err\<rparr>, w')))"
    for h p ep
  proof (cases "deploy e h p ep (body request) w")
    case (Pair r w')
    then have "single_instance w'" using assms by (rule deploy_single_instance)
    with Pair show ?thesis by (cases r) simp_all
  qed
  then show ?thesis
    using assms by (simp add: handleUpload_def split: option.splits)
qed

lemma uploadServer_fetch_single_instance:
  "single_instance w \<Longrightarrow> single_instance (snd (uploadServer_fetch e request w))"
  by (simp add: uploadServer_fetch_def handleUpload_single_instance)

lemma serve_all_single_instance:
  "single_instance w \<Longrightarrow> single_instance (serve_all e requests w)"
  unfolding serve_all_def
  by (induction requests arbitrary: w) (simp_all add: uploadServer_fetch_single_instance)

lemma boot_single_instance:
  "currentAppServer (snd (boot e disk)) = None" "listening (snd (boot e disk)) = []"
  by (simp_all add: boot_def Let_def mkdirSync_def)

lemma recover_single_instance:
  assumes "currentAppServer w = None" "listening w = []"
  shows "single_instance (snd (recover e w))"
proof -
  have 0: "single_instance w" using assms by (simp add: single_instance_def)
  have "single_instance (snd (startApp e h p ep w))" for h p ep
    using startApp_single_instance [of e h p ep w] assms
    by (cases "startApp e h p ep w") simp
  with 0 recover_world [of e w] show ?thesis by auto
qed

lemma interleave_first_alone:
  "interleave e [False, False, False, False] (Arrived a, t, w)
     = (fst (alone e a w), t, snd (alone e a w))"
  by (simp add: alone_def split: prod.splits)

lemma interleave_second_alone:
  "interleave e [True, True, True, True] (t, Arrived b, w)
     = (t, fst (alone e b w), snd (alone e b w))"
  by (simp add: alone_def split: prod.splits)

lemma interleave_append:
  "interleave e (xs @ ys) s = interleave e ys (interleave e xs s)"
proof (induction xs arbitrary: s)
  case Nil
  show ?case by simp
next
  case (Cons x xs)
  obtain t1 t2 w where s: "s = (t1, t2, w)" by (cases s)
  show ?case unfolding s using Cons by (simp split: prod.splits)
qed

subsection \<open>A successful upload\<close>




subsection \<open>Requests that are refused\<close>

text \<open>
  Claim C6, amended. An upload in which one of the three headers is missing or empty, or
  in which \<open>parseInt\<close> finds no number at the start of \<open>X-Deploy-Port\<close>, is answered
  with status 400 and a plain-text reason, and the world is the one before the request:
  no directory is made, no instance is stopped or started, the state file is as it was.
\<close>

theorem handleUpload_bad_request:
  assumes "headers request ''X-Deploy-Hash'' = None \<or> headers request ''X-Deploy-Hash'' = Some []
           \<or> headers request ''X-Deploy-Port'' = None \<or> headers request ''X-Deploy-Port'' = Some []
           \<or> headers request ''X-Deploy-Entrypoint'' = None
           \<or> headers request ''X-Deploy-Entrypoint'' = Some []
           \<or> (\<exists>port'. headers request ''X-Deploy-Port'' = Some port' \<and> parseInt port' = None)"
  shows "\<exists>r. handleUpload e request w = (\<lparr>status = 400, payload = Text r\<rparr>, w)"
  using assms
  by (auto simp: handleUpload_def split: option.splits)

text \<open>The missing \<open>X-Deploy-Port\<close> of the specification's scenario, and a port with no digit.\<close>

theorem handleUpload_bad_request_witness:
  "headers \<lparr>pathname = ''/upload'', method = ''POST'',
            headers = [''X-Deploy-Hash'' \<mapsto> ''v2'', ''X-Deploy-Entrypoint'' \<mapsto> ''index.js''],
            body = ''archive-A''\<rparr> ''X-Deploy-Port'' = None
   \<and> parseInt ''http'' = None
   \<and> (\<exists>r. handleUpload example_env
              \<lparr>pathname = ''/upload'', method = ''POST'',
               headers = [''X-Deploy-Hash'' \<mapsto> ''v2'', ''X-Deploy-Entrypoint'' \<mapsto> ''index.js''],
               body = ''archive-A''\<rparr> v1_world
            = (\<lparr>status = 400, payload = Text r\<rparr>, v1_world))
   \<and> (\<exists>r. handleUpload example_env (upload ''v2'' ''http'' ''index.js'' ''archive-A'') v1_world
            = (\<lparr>status = 400, payload = Text r\<rparr>, v1_world))"
proof -
  let ?r = "\<lparr>pathname = ''/upload'', method = ''POST'',
             headers = [''X-Deploy-Hash'' \<mapsto> ''v2'', ''X-Deploy-Entrypoint'' \<mapsto> ''index.js''],
             body = ''archive-A''\<rparr>"
  have 1: "headers ?r ''X-Deploy-Port'' = None" by simp
  have 2: "parseInt ''http'' = None" by code_simp
  have 3: "headers (upload ''v2'' ''http'' ''index.js'' ''archive-A'') ''X-Deploy-Port'' = Some ''http''"
    by (simp add: upload_def)
  show ?thesis
    using 1 2 handleUpload_bad_request [of ?r example_env v1_world]
      handleUpload_bad_request [of "upload ''v2'' ''http'' ''index.js'' ''archive-A''"
        example_env v1_world] 3
    by blast
qed

text \<open>
  The claim as it is written fails: \<open>0xBB8\<close> is not a decimal integer, and the upload
  is accepted and the application served on port 3000; so is an upload with the port
  \<open>3000abc\<close>.
\<close>

theorem hexadecimal_port_accepted:
  "\<not> decimal_integer ''0xBB8''
   \<and> fst (handleUpload example_env (upload ''v1'' ''0xBB8'' ''index.js'' ''archive-A'') fresh_world)
       = \<lparr>status = 200, payload = UploadSuccess ''v1'' 3000\<rparr>
   \<and> currentAppServer
        (snd (handleUpload example_env (upload ''v1'' ''0xBB8'' ''index.js'' ''archive-A'')
               fresh_world)) = Some (Server 3000 ''fetch'')
   \<and> \<not> decimal_integer ''3000abc''
   \<and> fst (handleUpload example_env (upload ''v1'' ''3000abc'' ''index.js'' ''archive-A'')
            fresh_world)
       = \<lparr>status = 200, payload = UploadSuccess ''v1'' 3000\<rparr>"
  by code_simp

subsection \<open>A stop that throws\<close>

text \<open>
  Claim C3, amended. \<open>stopCurrentApp\<close> has no handler of its own: when \<open>stop()\<close> of the
  current server throws, the exception reaches the \<open>catch\<close> of \<open>handleUpload\<close>. The
  upload is answered with status 500, \<open>startApp\<close> is not called, and the world is the
  one the unpacking has left: the old server is still the current one and still bound,
  and the version variable is unchanged.
\<close>

theorem stop_failure_aborts_deploy:
  assumes hdr: "headers request ''X-Deploy-Hash'' = Some hash'"
               "headers request ''X-Deploy-Port'' = Some port'"
               "headers request ''X-Deploy-Entrypoint'' = Some entrypoint'"
               "hash' \<noteq> []" "port' \<noteq> []" "entrypoint' \<noteq> []"
               "parseInt port' = Some appPort"
      and mat: "materialize e hash' (body request) w = (Inr (), w1)"
      and cur: "currentAppServer w = Some s"
      and raises: "stop_raises e s"
  shows "handleUpload e request w = (\<lparr>status = 500, payload = UploadFailure StopError\<rparr>, w1)
         \<and> currentAppServer w1 = Some s
         \<and> currentDeploymentHash w1 = currentDeploymentHash w
         \<and> listening w1 = listening w"
proof -
  have sp: "same_process w w1"
    using materialize_process [of w e hash' "body request"] mat by simp
  then have "currentAppServer w1 = Some s" using cur by (simp add: same_process_def)
  then have "stopCurrentApp e w1 = (Inl StopError, w1)"
    using raises by (simp add: stopCurrentApp_def)
  then have "deploy e hash' appPort entrypoint' (body request) w = (Inl StopError, w1)"
    using mat by (simp add: deploy_def andThen_def)
  then have "handleUpload e request w = (\<lparr>status = 500, payload = UploadFailure StopError\<rparr>, w1)"
    using hdr by (simp add: handleUpload_def)
  with sp cur show ?thesis by (simp add: same_process_def)
qed

text \<open>
  The claim as it is written fails: with version v1 running and a \<open>stop()\<close> that throws,
  the upload of v2 is answered with a failure and v2 is never started.
\<close>

theorem stop_failure_counterexample:
  "stop_raises (example_env\<lparr>stop_raises := \<lambda>s. True\<rparr>) (Server 3000 ''fetch'')
   \<and> currentAppServer v1_world = Some (Server 3000 ''fetch'')
   \<and> fst (handleUpload (example_env\<lparr>stop_raises := \<lambda>s. True\<rparr>)
            (upload ''v2'' ''3000'' ''index.js'' ''archive-A'') v1_world)
       = \<lparr>status = 500, payload = UploadFailure StopError\<rparr>
   \<and> currentDeploymentHash
        (snd (handleUpload (example_env\<lparr>stop_raises := \<lambda>s. True\<rparr>)
               (upload ''v2'' ''3000'' ''index.js'' ''archive-A'') v1_world)) = Some ''v1''"
  by code_simp

theorem stop_failure_aborts_deploy_witness:
  "handleUpload (example_env\<lparr>stop_raises := \<lambda>s. True\<rparr>)
     (upload ''v2'' ''3000'' ''index.js'' ''archive-A'') v1_world
   = (\<lparr>status = 500, payload = UploadFailure StopError\<rparr>,
      snd (materialize (example_env\<lparr>stop_raises := \<lambda>s. True\<rparr>) ''v2'' ''archive-A'' v1_world))
   \<and> currentAppServer
        (snd (materialize (example_env\<lparr>stop_raises := \<lambda>s. True\<rparr>) ''v2'' ''archive-A'' v1_world))
       = Some (Server 3000 ''fetch'')"
proof -
  let ?e = "example_env\<lparr>stop_raises := \<lambda>s. True\<rparr>"
  let ?r = "upload ''v2'' ''3000'' ''index.js'' ''archive-A''"
  have "fst (materialize ?e ''v2'' ''archive-A'' v1_world) = Inr ()"
    by code_simp
  then have mat: "materialize ?e ''v2'' (body ?r) v1_world
                    = (Inr (), snd (materialize ?e ''v2'' ''archive-A'' v1_world))"
    by (simp add: upload_def prod_eq_iff)
  have cur: "currentAppServer v1_world = Some (Server 3000 ''fetch'')"
    by code_simp
  have p: "parseInt ''3000'' = Some 3000"
    by code_simp
  have r: "stop_raises ?e (Server 3000 ''fetch'')" by simp
  show ?thesis
    using stop_failure_aborts_deploy [OF _ _ _ _ _ _ p mat cur r]
    by (simp add: upload_def)
qed

subsection \<open>Recovery at startup\<close>

lemma state_json_read:
  "truthy (state_json st)"
  "member (state_json st) ''hash'' = Some (JStr (hash st))"
  "member (state_json st) ''port'' = Some (JInt (port st))"
  "member (state_json st) ''entrypoint'' = Some (JStr (entrypoint st))"
  by (simp_all add: state_json_def)

text \<open>The recovery when the state file holds a record.\<close>

lemma recover_record:
  assumes "loadDeploymentState e w = Some (state_json st)"
  shows "recover e w =
     (if existsSync_as w (join (DEPLOYMENTS_DIR e) (hash st)) (ends_in_slash (hash st))
      then (case startApp e (hash st) (Some (JInt (port st))) (entrypoint st) w of
              (Inr u, w') \<Rightarrow> (Inr (), w')
            | (Inl err, w') \<Rightarrow> (Inr (), w'))
      else (Inr (), w))"
  using assms by (simp add: recover_def Let_def state_json_read)

lemma state_json_now:
  "state_json \<lparr>hash = hash st, port = port st, entrypoint = entrypoint st, timestamp = t\<rparr>
     = state_json (st\<lparr>timestamp := t\<rparr>)"
  by (simp add: state_json_def)

text \<open>
  Claim C10. A recovery whose \<open>startApp\<close> succeeds writes the state file again: the
  record has the hash, port and entrypoint that were loaded and the time of the recovery
  as its timestamp.
\<close>

theorem recover_rewrites_state_file:
  assumes "loadDeploymentState e w = Some (state_json st)"
      and "existsSync_as w (join (DEPLOYMENTS_DIR e) (hash st)) (ends_in_slash (hash st))"
      and "startApp e (hash st) (Some (JInt (port st))) (entrypoint st) w = (Inr (), w')"
  shows "recover e w = (Inr (), w')
         \<and> fs w' (STATE_FILE e) = Some (File (Json (state_json (st\<lparr>timestamp := now e\<rparr>))))
         \<and> loadDeploymentState e w' = Some (state_json (st\<lparr>timestamp := now e\<rparr>))"
proof -
  have 1: "recover e w = (Inr (), w')"
    using assms by (simp add: recover_record)
  have 2: "loadDeploymentState e w' = Some (state_json (st\<lparr>timestamp := now e\<rparr>))"
    using startApp_Inr(3) [OF assms(3), of "port st"] by (simp add: state_json_now)
  then have 3: "fs w' (STATE_FILE e)
                  = Some (File (Json (state_json (st\<lparr>timestamp := now e\<rparr>))))"
    by (auto simp: loadDeploymentState_def existsSync_def
             split: if_splits option.splits node.splits content.splits)
  from 1 2 3 show ?thesis by simp
qed

text \<open>The server of version v1 started again, a month later.\<close>

theorem recover_rewrites_state_file_witness:
  "loadDeploymentState example_env (restarted v1_world)
     = Some (state_json \<lparr>hash = ''v1'', port = 3000, entrypoint = ''index.js'',
                          timestamp = ''2025-01-01T12:00:00.000Z''\<rparr>)
   \<and> loadDeploymentState (example_env\<lparr>now := ''2025-02-02T08:30:00.000Z''\<rparr>)
        (snd (recover (example_env\<lparr>now := ''2025-02-02T08:30:00.000Z''\<rparr>) (restarted v1_world)))
     = Some (state_json \<lparr>hash = ''v1'', port = 3000, entrypoint = ''index.js'',
                          timestamp = ''2025-02-02T08:30:00.000Z''\<rparr>)"
proof -
  let ?e = "example_env\<lparr>now := ''2025-02-02T08:30:00.000Z''\<rparr>"
  let ?st = "\<lparr>hash = ''v1'', port = 3000, entrypoint = ''index.js'',
              timestamp = ''2025-01-01T12:00:00.000Z''\<rparr>"
  have 0: "loadDeploymentState example_env (restarted v1_world) = Some (state_json ?st)"
    by code_simp
  have 1: "loadDeploymentState ?e (restarted v1_world) = Some (state_json ?st)"
    by code_simp
  have 2: "existsSync_as (restarted v1_world) (join (DEPLOYMENTS_DIR ?e) (hash ?st))
             (ends_in_slash (hash ?st))"
    by code_simp
  have "fst (startApp ?e ''v1'' (Some (JInt 3000)) ''index.js'' (restarted v1_world)) = Inr ()"
    by code_simp
  then have 3: "startApp ?e (hash ?st) (Some (JInt (port ?st))) (entrypoint ?st)
                  (restarted v1_world)
                  = (Inr (), snd (startApp ?e ''v1'' (Some (JInt 3000)) ''index.js''
                                    (restarted v1_world)))"
    by (simp add: prod_eq_iff)
  from recover_rewrites_state_file [OF 1 2 3] 0 show ?thesis by simp
qed

text \<open>
  Claim C7, amended. With no state file, or one that cannot be read or is not JSON, or
  one that holds \<open>null\<close>, \<open>false\<close>, \<open>0\<close> or the empty string, or a record whose
  directory is missing, the recovery changes nothing and returns. With a record (hash,
  port, entrypoint, timestamp) whose directory exists it calls \<open>startApp\<close> with the
  recorded hash, port and entrypoint. When that succeeds the recovery returns, the new
  server is current and bound, on the recorded port when that is from 1 to 65535, the
  recorded version is current and the record is written again with a new timestamp.
  When \<open>startApp\<close> throws the error is swallowed and the recovery returns; when it was
  the start of the instance that failed, nothing has changed, so no instance runs.
\<close>

theorem recover_outcomes:
  "(fs w (STATE_FILE e) = None \<or> fs w (STATE_FILE e) = Some Dir
      \<or> (\<exists>t. fs w (STATE_FILE e) = Some (File (Raw t)))
      \<or> (\<exists>j. fs w (STATE_FILE e) = Some (File (Json j)) \<and> \<not> truthy j)
    \<longrightarrow> recover e w = (Inr (), w))
   \<and> (\<forall>st. loadDeploymentState e w = Some (state_json st)
            \<and> \<not> existsSync_as w (join (DEPLOYMENTS_DIR e) (hash st)) (ends_in_slash (hash st))
        \<longrightarrow> recover e w = (Inr (), w))
   \<and> (\<forall>st w'. loadDeploymentState e w = Some (state_json st)
            \<and> existsSync_as w (join (DEPLOYMENTS_DIR e) (hash st)) (ends_in_slash (hash st))
            \<and> startApp e (hash st) (Some (JInt (port st))) (entrypoint st) w = (Inr (), w')
        \<longrightarrow> recover e w = (Inr (), w')
            \<and> (\<exists>srv. currentAppServer w' = Some srv \<and> listening w' = srv # listening w
                    \<and> (0 < port st \<and> port st \<le> 65535 \<longrightarrow> srv_port srv = port st))
            \<and> currentDeploymentHash w' = Some (hash st)
            \<and> loadDeploymentState e w' = Some (state_json (st\<lparr>timestamp := now e\<rparr>)))
   \<and> (\<forall>st err w'. loadDeploymentState e w = Some (state_json st)
            \<and> existsSync_as w (join (DEPLOYMENTS_DIR e) (hash st)) (ends_in_slash (hash st))
            \<and> startApp e (hash st) (Some (JInt (port st))) (entrypoint st) w = (Inl err, w')
        \<longrightarrow> recover e w = (Inr (), w') \<and> (instance_start_error err \<longrightarrow> w' = w))"
proof (intro conjI allI impI)
  assume a: "fs w (STATE_FILE e) = None \<or> fs w (STATE_FILE e) = Some Dir
      \<or> (\<exists>t. fs w (STATE_FILE e) = Some (File (Raw t)))
      \<or> (\<exists>j. fs w (STATE_FILE e) = Some (File (Json j)) \<and> \<not> truthy j)"
  show "recover e w = (Inr (), w)"
  proof (cases "loadDeploymentState e w")
    case None
    then show ?thesis by (simp add: recover_def)
  next
    case (Some j)
    then have "\<not> truthy j" using a
      by (auto simp: loadDeploymentState_def split: if_splits)
    with Some show ?thesis by (simp add: recover_def)
  qed
next
  fix st
  assume "loadDeploymentState e w = Some (state_json st)
            \<and> \<not> existsSync_as w (join (DEPLOYMENTS_DIR e) (hash st)) (ends_in_slash (hash st))"
  then show "recover e w = (Inr (), w)" by (simp add: recover_record)
next
  fix st w'
  assume a: "loadDeploymentState e w = Some (state_json st)
            \<and> existsSync_as w (join (DEPLOYMENTS_DIR e) (hash st)) (ends_in_slash (hash st))
            \<and> startApp e (hash st) (Some (JInt (port st))) (entrypoint st) w = (Inr (), w')"
  then have s: "startApp e (hash st) (Some (JInt (port st))) (entrypoint st) w = (Inr (), w')"
    by simp
  show "recover e w = (Inr (), w')" using a by (simp add: recover_record)
  show "\<exists>srv. currentAppServer w' = Some srv \<and> listening w' = srv # listening w
            \<and> (0 < port st \<and> port st \<le> 65535 \<longrightarrow> srv_port srv = port st)"
    using startApp_Inr(1) [OF s] port_for_in_range [of "port st" e] by auto
  show "currentDeploymentHash w' = Some (hash st)"
    by (rule startApp_Inr(2) [OF s])
  show "loadDeploymentState e w' = Some (state_json (st\<lparr>timestamp := now e\<rparr>))"
    using startApp_Inr(3) [OF s, of "port st"] by (simp add: state_json_now)
next
  fix st err w'
  assume a: "loadDeploymentState e w = Some (state_json st)
            \<and> existsSync_as w (join (DEPLOYMENTS_DIR e) (hash st)) (ends_in_slash (hash st))
            \<and> startApp e (hash st) (Some (JInt (port st))) (entrypoint st) w = (Inl err, w')"
  then show "recover e w = (Inr (), w')" by (simp add: recover_record)
  assume "instance_start_error err"
  then show "w' = w"
    using a startApp_Inl [of e "hash st" "Some (JInt (port st))" "entrypoint st" w err w']
    by auto
qed

text \<open>
  The claim as it is written fails: after the restart of \<open>broken_v1_world\<close> the record
  of v1 exists and so does its directory, but the entrypoint is gone and no instance
  becomes active.
\<close>

theorem recover_start_failure_counterexample:
  "loadDeploymentState example_env (restarted broken_v1_world)
     = Some (state_json \<lparr>hash = ''v1'', port = 3000, entrypoint = ''index.js'',
                          timestamp = ''2025-01-01T12:00:00.000Z''\<rparr>)
   \<and> existsSync_as (restarted broken_v1_world) (join (DEPLOYMENTS_DIR example_env) ''v1'')
        (ends_in_slash ''v1'')
   \<and> currentAppServer (snd (recover example_env (restarted broken_v1_world))) = None
   \<and> listening (snd (recover example_env (restarted broken_v1_world))) = []"
  by code_simp

theorem recover_outcomes_witness:
  "recover example_env (restarted v1_world)
     = (Inr (), snd (startApp example_env ''v1'' (Some (JInt 3000)) ''index.js''
                       (restarted v1_world)))
   \<and> currentAppServer
        (snd (startApp example_env ''v1'' (Some (JInt 3000)) ''index.js'' (restarted v1_world)))
       = Some (Server 3000 ''fetch'')
   \<and> currentDeploymentHash
        (snd (startApp example_env ''v1'' (Some (JInt 3000)) ''index.js'' (restarted v1_world)))
       = Some ''v1''
   \<and> recover example_env fresh_world = (Inr (), fresh_world)
   \<and> recover example_env (restarted broken_v1_world) = (Inr (), restarted broken_v1_world)"
proof -
  let ?st = "\<lparr>hash = ''v1'', port = 3000, entrypoint = ''index.js'',
              timestamp = ''2025-01-01T12:00:00.000Z''\<rparr>"
  let ?w = "restarted v1_world"
  let ?b = "restarted broken_v1_world"
  have 1: "loadDeploymentState example_env ?w = Some (state_json ?st)"
    by code_simp
  have 2: "existsSync_as ?w (join (DEPLOYMENTS_DIR example_env) (hash ?st))
             (ends_in_slash (hash ?st))"
    by code_simp
  have "fst (startApp example_env ''v1'' (Some (JInt 3000)) ''index.js'' ?w) = Inr ()"
    by code_simp
  then have 3: "startApp example_env (hash ?st) (Some (JInt (port ?st))) (entrypoint ?st) ?w
                  = (Inr (), snd (startApp example_env ''v1'' (Some (JInt 3000)) ''index.js'' ?w))"
    by (simp add: prod_eq_iff)
  have 4: "fs fresh_world (STATE_FILE example_env) = None"
    by code_simp
  have 5: "loadDeploymentState example_env ?b = Some (state_json ?st)"
    by code_simp
  have 6: "existsSync_as ?b (join (DEPLOYMENTS_DIR example_env) (hash ?st))
             (ends_in_slash (hash ?st))"
    by code_simp
  have "fst (startApp example_env ''v1'' (Some (JInt 3000)) ''index.js'' ?b)
          = Inl (EntrypointNotFound [''app'', ''deployments'', ''v1'', ''index.js''])"
    by code_simp
  then have 7: "startApp example_env (hash ?st) (Some (JInt (port ?st))) (entrypoint ?st) ?b
                  = (Inl (EntrypointNotFound [''app'', ''deployments'', ''v1'', ''index.js'']),
                     snd (startApp example_env ''v1'' (Some (JInt 3000)) ''index.js'' ?b))"
    by (simp add: prod_eq_iff)
  have 8: "instance_start_error (EntrypointNotFound [''app'', ''deployments'', ''v1'', ''index.js''])"
    by (simp add: instance_start_error_def)
  have c: "currentAppServer (snd (startApp example_env ''v1'' (Some (JInt 3000)) ''index.js'' ?w))
             = Some (Server 3000 ''fetch'')"
    by code_simp
  note A = recover_outcomes [of ?w example_env, THEN conjunct2, THEN conjunct2, THEN conjunct1,
      rule_format, of ?st "snd (startApp example_env ''v1'' (Some (JInt 3000)) ''index.js'' ?w)"]
  note B = recover_outcomes [of fresh_world example_env, THEN conjunct1, rule_format]
  note C = recover_outcomes [of ?b example_env, THEN conjunct2, THEN conjunct2, THEN conjunct2,
      rule_format, of ?st "EntrypointNotFound [''app'', ''deployments'', ''v1'', ''index.js'']"
        "snd (startApp example_env ''v1'' (Some (JInt 3000)) ''index.js'' ?b)"]
  have a: "recover example_env ?w
              = (Inr (), snd (startApp example_env ''v1'' (Some (JInt 3000)) ''index.js'' ?w))"
          "currentDeploymentHash
             (snd (startApp example_env ''v1'' (Some (JInt 3000)) ''index.js'' ?w)) = Some ''v1''"
    using A 1 2 3 by simp_all
  have b: "recover example_env fresh_world = (Inr (), fresh_world)"
    using B 4 by simp
  have "recover example_env ?b
          = (Inr (), snd (startApp example_env ''v1'' (Some (JInt 3000)) ''index.js'' ?b))
        \<and> snd (startApp example_env ''v1'' (Some (JInt 3000)) ''index.js'' ?b) = ?b"
    using C 5 6 7 8 by simp
  then have d: "recover example_env ?b = (Inr (), ?b)"
    by simp
  from a b c d show ?thesis by simp
qed

text \<open>
  Outside the claim: when the state file holds a value that counts as true and has no
  \<open>hash\<close> that is a string, such as an empty object, the recovery throws.
\<close>

lemma recover_without_hash:
  assumes "loadDeploymentState e w = Some j" "truthy j"
      and "\<And>h. member j ''hash'' \<noteq> Some (JStr h)"
  shows "recover e w = (Inl TypeError, w)"
  using assms by (simp add: recover_def split: option.splits json.splits)

lemma recover_empty_object: "recover example_env empty_object_world = (Inl TypeError, empty_object_world)"
proof -
  have "loadDeploymentState example_env empty_object_world = Some (JObj [])"
    by code_simp
  then show ?thesis by (rule recover_without_hash) simp_all
qed

subsection \<open>The directory of a version\<close>



subsection \<open>What a response says about the instance and the state file\<close>




subsection \<open>A version that names the state file\<close>

text \<open>
  Claim C2 fails on the code for a version whose directory is the state file, or the
  deployments directory that holds it: the hash is joined to the deployments directory
  unchecked. With v1 running and recorded, an upload with \<open>X-Deploy-Hash: .state.json\<close>
  whose archive has no \<open>index.js\<close> removes the state file, makes a directory in its
  place and unpacks there; the start fails for the missing entrypoint, no instance runs,
  and the record that was there before the upload is lost. The same upload with
  \<open>X-Deploy-Hash: .\<close> removes the whole deployments directory. For every other version
  the record is kept (\<open>deploy_Inl_load\<close>).
\<close>

theorem state_file_version_loses_record:
  "loadDeploymentState example_env v1_world
     = Some (state_json \<lparr>hash = ''v1'', port = 3000, entrypoint = ''index.js'',
                          timestamp = ''2025-01-01T12:00:00.000Z''\<rparr>)
   \<and> fst (handleUpload example_env (upload ''.state.json'' ''3000'' ''index.js'' ''archive-E'')
            v1_world)
     = \<lparr>status = 500,
        payload = UploadFailure
          (EntrypointNotFound [''app'', ''deployments'', ''.state.json'', ''index.js''])\<rparr>
   \<and> currentAppServer
        (snd (handleUpload example_env (upload ''.state.json'' ''3000'' ''index.js'' ''archive-E'')
               v1_world)) = None
   \<and> loadDeploymentState example_env
        (snd (handleUpload example_env (upload ''.state.json'' ''3000'' ''index.js'' ''archive-E'')
               v1_world)) = None
   \<and> fst (handleUpload example_env (upload ''.'' ''3000'' ''index.js'' ''archive-E'') v1_world)
     = \<lparr>status = 500,
        payload = UploadFailure (EntrypointNotFound [''app'', ''deployments'', ''index.js''])\<rparr>
   \<and> loadDeploymentState example_env
        (snd (handleUpload example_env (upload ''.'' ''3000'' ''index.js'' ''archive-E'') v1_world))
       = None"
  by code_simp

text \<open>
  Claim C8, amended. The source has no lock. Two uploads of which the second takes its
  first step after the first has answered are \<open>handleUpload\<close> twice, and they leave at
  most one instance bound, the current one; so does the recovery at the start of the
  process followed by any requests handled one after the other.
\<close>

theorem serial_uploads_single_instance:
  assumes "single_instance w"
  shows "interleave e [False, False, False, False, True, True, True, True]
           (Arrived a, Arrived b, w)
         = (Responded (fst (handleUpload e a w)),
            Responded (fst (handleUpload e b (snd (handleUpload e a w)))),
            snd (handleUpload e b (snd (handleUpload e a w))))
         \<and> single_instance (snd (handleUpload e b (snd (handleUpload e a w))))
         \<and> length (listening (snd (handleUpload e b (snd (handleUpload e a w))))) \<le> 1
         \<and> single_instance (serve_all e requests (snd (recover e (snd (boot e disk)))))"
proof -
  have "interleave e ([False, False, False, False] @ [True, True, True, True])
           (Arrived a, Arrived b, w)
         = (Responded (fst (handleUpload e a w)),
            Responded (fst (handleUpload e b (snd (handleUpload e a w)))),
            snd (handleUpload e b (snd (handleUpload e a w))))"
    unfolding interleave_append interleave_first_alone interleave_second_alone
    by (simp add: alone_handleUpload)
  then have 1: "interleave e [False, False, False, False, True, True, True, True]
           (Arrived a, Arrived b, w)
         = (Responded (fst (handleUpload e a w)),
            Responded (fst (handleUpload e b (snd (handleUpload e a w)))),
            snd (handleUpload e b (snd (handleUpload e a w))))"
    by simp
  have 2: "single_instance (snd (handleUpload e b (snd (handleUpload e a w))))"
    using assms by (intro handleUpload_single_instance)
  then have 3: "length (listening (snd (handleUpload e b (snd (handleUpload e a w))))) \<le> 1"
    by (simp add: single_instance_def split: option.splits)
  have 4: "single_instance (serve_all e requests (snd (recover e (snd (boot e disk)))))"
    by (intro serve_all_single_instance recover_single_instance boot_single_instance)
  from 1 2 3 4 show ?thesis by simp
qed

text \<open>
  The claim as it is written fails: no step of one upload excludes a step of the other.
  When the second upload stops and unpacks while the first waits for its import, both
  are answered with status 200 and both servers stay bound, on ports 3000 and 3001; only
  the second is the current one.
\<close>

theorem interleaved_uploads_counterexample:
  "single_instance fresh_world
   \<and> response_of
        (fst (interleave example_env [False, False, True, True, False, True, False, True]
            (Arrived (upload ''v1'' ''3000'' ''index.js'' ''archive-A''),
             Arrived (upload ''v2'' ''3001'' ''index.js'' ''archive-A''), fresh_world)))
       = Some \<lparr>status = 200, payload = UploadSuccess ''v1'' 3000\<rparr>
   \<and> response_of
        (fst (snd (interleave example_env [False, False, True, True, False, True, False, True]
            (Arrived (upload ''v1'' ''3000'' ''index.js'' ''archive-A''),
             Arrived (upload ''v2'' ''3001'' ''index.js'' ''archive-A''), fresh_world))))
       = Some \<lparr>status = 200, payload = UploadSuccess ''v2'' 3001\<rparr>
   \<and> listening
        (snd (snd (interleave example_env [False, False, True, True, False, True, False, True]
            (Arrived (upload ''v1'' ''3000'' ''index.js'' ''archive-A''),
             Arrived (upload ''v2'' ''3001'' ''index.js'' ''archive-A''), fresh_world))))
       = [Server 3001 ''fetch'', Server 3000 ''fetch'']
   \<and> currentAppServer
        (snd (snd (interleave example_env [False, False, True, True, False, True, False, True]
            (Arrived (upload ''v1'' ''3000'' ''index.js'' ''archive-A''),
             Arrived (upload ''v2'' ''3001'' ''index.js'' ''archive-A''), fresh_world))))
       = Some (Server 3001 ''fetch'')"
  by code_simp

theorem serial_uploads_single_instance_witness:
  "single_instance fresh_world
   \<and> listening
        (snd (snd (interleave example_env [False, False, False, False, True, True, True, True]
            (Arrived (upload ''v1'' ''3000'' ''index.js'' ''archive-A''),
             Arrived (upload ''v2'' ''3001'' ''index.js'' ''archive-A''), fresh_world))))
       = [Server 3001 ''fetch'']
   \<and> length (listening
        (snd (handleUpload example_env (upload ''v2'' ''3001'' ''index.js'' ''archive-A'')
          (snd (handleUpload example_env (upload ''v1'' ''3000'' ''index.js'' ''archive-A'')
                  fresh_world))))) \<le> 1"
proof -
  have one: "single_instance fresh_world"
    by code_simp
  have l: "listening
        (snd (snd (interleave example_env [False, False, False, False, True, True, True, True]
            (Arrived (upload ''v1'' ''3000'' ''index.js'' ''archive-A''),
             Arrived (upload ''v2'' ''3001'' ''index.js'' ''archive-A''), fresh_world))))
       = [Server 3001 ''fetch'']"
    by code_simp
  from serial_uploads_single_instance [OF one, of example_env
      "upload ''v1'' ''3000'' ''index.js'' ''archive-A''"
      "upload ''v2'' ''3001'' ''index.js'' ''archive-A''" "[]" Map.empty] one l
  show ?thesis by simp
qed

subsection \<open>The version variable\<close>

text \<open>
  Claim C9, amended. \<open>stopCurrentApp\<close> never changes \<open>currentDeploymentHash\<close>. When an
  upload has stopped the old instance and \<open>startApp\<close> then throws, the answer has status
  500, and there are two cases. The start of the instance failed (entrypoint missing,
  module not loaded, no handler, port not bound): no server is current, in a process
  that had only its current server bound none is bound, and \<open>GET /status\<close> still reports
  the version from before the upload. Or the write of the state file failed: the new
  server is current and bound and \<open>GET /status\<close> reports the new version. The variable
  is null when the process starts, every \<open>startApp\<close> that returns sets it, and no
  request and no recovery makes it null again.
\<close>

theorem failed_start_and_version:
  assumes hdr: "headers request ''X-Deploy-Hash'' = Some hash'"
               "headers request ''X-Deploy-Port'' = Some port'"
               "headers request ''X-Deploy-Entrypoint'' = Some entrypoint'"
               "hash' \<noteq> []" "port' \<noteq> []" "entrypoint' \<noteq> []"
               "parseInt port' = Some appPort"
      and mat: "materialize e hash' (body request) w = (Inr (), w1)"
      and stop: "stopCurrentApp e w1 = (Inr (), w2)"
      and start: "startApp e hash' (Some (JInt appPort)) entrypoint' w2 = (Inl err, w3)"
  shows "(\<forall>v. currentDeploymentHash (snd (stopCurrentApp e v)) = currentDeploymentHash v)
         \<and> handleUpload e request w = (\<lparr>status = 500, payload = UploadFailure err\<rparr>, w3)
         \<and> (instance_start_error err \<longrightarrow>
               currentAppServer w3 = None
               \<and> (single_instance w \<longrightarrow> listening w3 = [])
               \<and> fst (uploadServer_fetch e status_request w3)
                   = \<lparr>status = 200,
                      payload = StatusReport (currentDeploymentHash w) UPLOAD_PORT
                                  (DEPLOYMENTS_DIR e)\<rparr>)
         \<and> (\<not> instance_start_error err \<longrightarrow>
               err = WriteError (STATE_FILE e)
               \<and> (\<exists>srv. currentAppServer w3 = Some srv \<and> srv \<in> set (listening w3))
               \<and> fst (uploadServer_fetch e status_request w3)
                   = \<lparr>status = 200,
                      payload = StatusReport (Some hash') UPLOAD_PORT (DEPLOYMENTS_DIR e)\<rparr>)
         \<and> currentDeploymentHash (snd (boot e disk)) = None
         \<and> (\<forall>v hash'' port'' entrypoint'' u v'.
               startApp e hash'' port'' entrypoint'' v = (Inr u, v')
               \<longrightarrow> currentDeploymentHash v' = Some hash'')
         \<and> (\<forall>v r. currentDeploymentHash v \<noteq> None
               \<longrightarrow> currentDeploymentHash (snd (uploadServer_fetch e r v)) \<noteq> None
                   \<and> currentDeploymentHash (snd (recover e v)) \<noteq> None)"
proof -
  have sp: "same_process w w1"
    using materialize_process [of w e hash' "body request"] mat by simp
  have "deploy e hash' appPort entrypoint' (body request) w = (Inl err, w3)"
    using mat stop start by (simp add: deploy_def andThen_def)
  then have 1: "handleUpload e request w = (\<lparr>status = 500, payload = UploadFailure err\<rparr>, w3)"
    using hdr by (simp add: handleUpload_def)
  have v2: "currentDeploymentHash w2 = currentDeploymentHash w"
    using stopCurrentApp_Inr(3) [OF stop] sp by (simp add: same_process_def)
  have 2: "currentAppServer w3 = None
           \<and> (single_instance w \<longrightarrow> listening w3 = [])
           \<and> fst (uploadServer_fetch e status_request w3)
               = \<lparr>status = 200,
                  payload = StatusReport (currentDeploymentHash w) UPLOAD_PORT
                              (DEPLOYMENTS_DIR e)\<rparr>"
    if "instance_start_error err"
  proof -
    have w3: "w3 = w2" using startApp_Inl [OF start] that by auto
    have "single_instance w1" if "single_instance w"
      using mat that by (rule materialize_single_instance)
    then show ?thesis
      using stopCurrentApp_Inr(1,4) [OF stop] w3 v2
      by (simp add: uploadServer_fetch_def status_request_def)
  qed
  have 3: "err = WriteError (STATE_FILE e)
           \<and> (\<exists>srv. currentAppServer w3 = Some srv \<and> srv \<in> set (listening w3))
           \<and> fst (uploadServer_fetch e status_request w3)
               = \<lparr>status = 200,
                  payload = StatusReport (Some hash') UPLOAD_PORT (DEPLOYMENTS_DIR e)\<rparr>"
    if "\<not> instance_start_error err"
    using startApp_Inl [OF start] that
    by (auto simp: uploadServer_fetch_def status_request_def)
  have 4: "currentDeploymentHash (snd (boot e disk)) = None"
    by (simp add: boot_def Let_def mkdirSync_def)
  have 5: "\<forall>v hash'' port'' entrypoint'' u v'.
               startApp e hash'' port'' entrypoint'' v = (Inr u, v')
               \<longrightarrow> currentDeploymentHash v' = Some hash''"
    using startApp_Inr(2) by blast
  have 6: "\<forall>v r. currentDeploymentHash v \<noteq> None
               \<longrightarrow> currentDeploymentHash (snd (uploadServer_fetch e r v)) \<noteq> None
                   \<and> currentDeploymentHash (snd (recover e v)) \<noteq> None"
  proof (intro allI impI conjI)
    fix v :: world and r :: request
    assume a: "currentDeploymentHash v \<noteq> None"
    show "currentDeploymentHash (snd (uploadServer_fetch e r v)) \<noteq> None"
      using a handleUpload_version [OF a, of e r] by (simp add: uploadServer_fetch_def)
    show "currentDeploymentHash (snd (recover e v)) \<noteq> None"
      using a by (rule recover_version)
  qed
  from 1 2 3 4 5 6 stopCurrentApp_version show ?thesis by blast
qed

text \<open>
  The claim as it is written fails: with version v1 running, version v2 is uploaded for
  port 3001 and its state cannot be written. The old instance is stopped, \<open>startApp\<close>
  throws, and \<open>GET /status\<close> reports v2, not v1, while the instance of v2 is running.
\<close>

theorem failed_save_version_counterexample:
  "currentDeploymentHash v1_world = Some ''v1''
   \<and> fst (stopCurrentApp read_only_state
            (snd (materialize read_only_state ''v2'' ''archive-B'' v1_world))) = Inr ()
   \<and> fst (startApp read_only_state ''v2'' (Some (JInt 3001)) ''index.js''
            (snd (stopCurrentApp read_only_state
                   (snd (materialize read_only_state ''v2'' ''archive-B'' v1_world)))))
       = Inl (WriteError [''app'', ''deployments'', ''.state.json''])
   \<and> fst (uploadServer_fetch read_only_state status_request
            (snd (handleUpload read_only_state
                   (upload ''v2'' ''3001'' ''index.js'' ''archive-B'') v1_world)))
       = \<lparr>status = 200, payload = StatusReport (Some ''v2'') 7899 [''app'', ''deployments'']\<rparr>
   \<and> listening
        (snd (handleUpload read_only_state
               (upload ''v2'' ''3001'' ''index.js'' ''archive-B'') v1_world))
       = [Server 3001 ''app.fetch'']"
  by code_simp

text \<open>
  Version v2 uploaded without its entrypoint while v1 runs, and version v2 uploaded when
  the state file cannot be written.
\<close>

theorem failed_start_and_version_witness:
  "fst (handleUpload example_env (upload ''v2'' ''3000'' ''index.js'' ''archive-E'') v1_world)
     = \<lparr>status = 500,
        payload = UploadFailure (EntrypointNotFound [''app'', ''deployments'', ''v2'', ''index.js''])\<rparr>
   \<and> currentAppServer
        (snd (handleUpload example_env (upload ''v2'' ''3000'' ''index.js'' ''archive-E'') v1_world))
       = None
   \<and> fst (uploadServer_fetch example_env status_request
            (snd (handleUpload example_env (upload ''v2'' ''3000'' ''index.js'' ''archive-E'')
                   v1_world)))
       = \<lparr>status = 200, payload = StatusReport (Some ''v1'') 7899 [''app'', ''deployments'']\<rparr>
   \<and> fst (handleUpload read_only_state (upload ''v2'' ''3001'' ''index.js'' ''archive-B'') v1_world)
     = \<lparr>status = 500,
        payload = UploadFailure (WriteError [''app'', ''deployments'', ''.state.json''])\<rparr>
   \<and> (\<exists>srv. currentAppServer
               (snd (handleUpload read_only_state
                      (upload ''v2'' ''3001'' ''index.js'' ''archive-B'') v1_world)) = Some srv)"
proof -
  let ?r = "upload ''v2'' ''3000'' ''index.js'' ''archive-E''"
  let ?err = "EntrypointNotFound [''app'', ''deployments'', ''v2'', ''index.js'']"
  define w1 where "w1 = snd (materialize example_env ''v2'' ''archive-E'' v1_world)"
  define w2 where "w2 = snd (stopCurrentApp example_env w1)"
  define w3 where "w3 = snd (startApp example_env ''v2'' (Some (JInt 3000)) ''index.js'' w2)"
  have "fst (materialize example_env ''v2'' ''archive-E'' v1_world) = Inr ()"
    by code_simp
  then have mat: "materialize example_env ''v2'' (body ?r) v1_world = (Inr (), w1)"
    by (simp add: w1_def upload_def prod_eq_iff)
  have "fst (stopCurrentApp example_env
               (snd (materialize example_env ''v2'' ''archive-E'' v1_world))) = Inr ()"
    by code_simp
  then have stop: "stopCurrentApp example_env w1 = (Inr (), w2)"
    by (simp add: w1_def w2_def prod_eq_iff)
  have "fst (startApp example_env ''v2'' (Some (JInt 3000)) ''index.js''
               (snd (stopCurrentApp example_env
                 (snd (materialize example_env ''v2'' ''archive-E'' v1_world))))) = Inl ?err"
    by code_simp
  then have start: "startApp example_env ''v2'' (Some (JInt 3000)) ''index.js'' w2 = (Inl ?err, w3)"
    by (simp add: w1_def w2_def w3_def prod_eq_iff)
  have err: "instance_start_error ?err"
    by (simp add: instance_start_error_def)
  have p: "parseInt ''3000'' = Some 3000"
    by code_simp
  have v: "currentDeploymentHash v1_world = Some ''v1''"
    by code_simp
  have c: "UPLOAD_PORT = 7899" "DEPLOYMENTS_DIR example_env = [''app'', ''deployments'']"
    by (simp_all add: UPLOAD_PORT_def DEPLOYMENTS_DIR_def example_env_def)
  have h: "headers ?r ''X-Deploy-Hash'' = Some ''v2''" "headers ?r ''X-Deploy-Port'' = Some ''3000''"
    "headers ?r ''X-Deploy-Entrypoint'' = Some ''index.js''"
    by (simp_all add: upload_def)
  have first: "fst (handleUpload example_env ?r v1_world)
        = \<lparr>status = 500, payload = UploadFailure ?err\<rparr>
     \<and> currentAppServer (snd (handleUpload example_env ?r v1_world)) = None
     \<and> fst (uploadServer_fetch example_env status_request
            (snd (handleUpload example_env ?r v1_world)))
       = \<lparr>status = 200, payload = StatusReport (Some ''v1'') 7899 [''app'', ''deployments'']\<rparr>"
    using failed_start_and_version [OF h _ _ _ p mat stop start, of Map.empty] err v c
    by simp
  let ?q = "upload ''v2'' ''3001'' ''index.js'' ''archive-B''"
  let ?werr = "WriteError [''app'', ''deployments'', ''.state.json'']"
  define u1 where "u1 = snd (materialize read_only_state ''v2'' ''archive-B'' v1_world)"
  define u2 where "u2 = snd (stopCurrentApp read_only_state u1)"
  define u3 where "u3 = snd (startApp read_only_state ''v2'' (Some (JInt 3001)) ''index.js'' u2)"
  have "fst (materialize read_only_state ''v2'' ''archive-B'' v1_world) = Inr ()"
    by code_simp
  then have mat': "materialize read_only_state ''v2'' (body ?q) v1_world = (Inr (), u1)"
    by (simp add: u1_def upload_def prod_eq_iff)
  have "fst (stopCurrentApp read_only_state
               (snd (materialize read_only_state ''v2'' ''archive-B'' v1_world))) = Inr ()"
    by code_simp
  then have stop': "stopCurrentApp read_only_state u1 = (Inr (), u2)"
    by (simp add: u1_def u2_def prod_eq_iff)
  have "fst (startApp read_only_state ''v2'' (Some (JInt 3001)) ''index.js''
               (snd (stopCurrentApp read_only_state
                 (snd (materialize read_only_state ''v2'' ''archive-B'' v1_world))))) = Inl ?werr"
    by code_simp
  then have start': "startApp read_only_state ''v2'' (Some (JInt 3001)) ''index.js'' u2
                       = (Inl ?werr, u3)"
    by (simp add: u1_def u2_def u3_def prod_eq_iff)
  have p': "parseInt ''3001'' = Some 3001"
    by code_simp
  have h': "headers ?q ''X-Deploy-Hash'' = Some ''v2''" "headers ?q ''X-Deploy-Port'' = Some ''3001''"
    "headers ?q ''X-Deploy-Entrypoint'' = Some ''index.js''"
    by (simp_all add: upload_def)
  have second: "fst (handleUpload read_only_state ?q v1_world)
        = \<lparr>status = 500, payload = UploadFailure ?werr\<rparr>
     \<and> (\<exists>srv. currentAppServer (snd (handleUpload read_only_state ?q v1_world)) = Some srv)"
    using failed_start_and_version [OF h' _ _ _ p' mat' stop' start', of Map.empty]
    by auto
  from first second show ?thesis by simp
qed

end
